theory Spec2Isabelle
  imports Complex_Main
begin

section \<open>Geometry\<close>

text \<open>
  The simulation uses the three.js class \<open>Vector3\<close> for positions.  Only the
  operations the game calls are modelled, each by its documented arithmetic.
  JavaScript numbers are modelled as real numbers: rounding, infinities and NaN are
  outside the model.
\<close>

datatype vec3 = Vector3 (vx: real) (vy: real) (vz: real)

definition subVectors :: "vec3 \<Rightarrow> vec3 \<Rightarrow> vec3" where
  "subVectors a b = Vector3 (vx a - vx b) (vy a - vy b) (vz a - vz b)"

definition vlength :: "vec3 \<Rightarrow> real" where
  "vlength v = sqrt (vx v * vx v + vy v * vy v + vz v * vz v)"

definition divideScalar :: "vec3 \<Rightarrow> real \<Rightarrow> vec3" where
  "divideScalar v s = Vector3 (vx v / s) (vy v / s) (vz v / s)"

text \<open>\<open>normalize\<close> divides by \<open>length() || 1\<close>: the zero vector stays zero.\<close>

definition normalize :: "vec3 \<Rightarrow> vec3" where
  "normalize v = divideScalar v (if vlength v = 0 then 1 else vlength v)"

definition addScaledVector :: "vec3 \<Rightarrow> vec3 \<Rightarrow> real \<Rightarrow> vec3" where
  "addScaledVector p d s = Vector3 (vx p + vx d * s) (vy p + vy d * s) (vz p + vz d * s)"

definition distanceToSquared :: "vec3 \<Rightarrow> vec3 \<Rightarrow> real" where
  "distanceToSquared a b =
     (vx a - vx b) * (vx a - vx b) + (vy a - vy b) * (vy a - vy b) + (vz a - vz b) * (vz a - vz b)"

section \<open>Path.js\<close>

record path =
  pwaypoints :: "vec3 list"

definition Path_new :: path where
  "Path_new = \<lparr>pwaypoints =
     [Vector3 (-15) 0.1 0, Vector3 0 0.1 0, Vector3 0 0.1 15, Vector3 15 0.1 15]\<rparr>"

definition getWaypoints :: "path \<Rightarrow> vec3 list" where
  "getWaypoints p = pwaypoints p"

section \<open>Enemy.js\<close>

text \<open>
  A sphere mesh carries the position of an enemy (or projectile) and the radius of its
  geometry.  The scene graph, colours and materials are rendering only and are left out.
  An enemy has no mesh when its constructor returned early, or after \<open>dispose\<close>.
\<close>

datatype error = TypeError

record sphere_mesh =
  position :: vec3
  radius :: real

record enemy =
  health :: real
  speed :: real
  evalue :: real
  currentWaypointIndex :: nat
  waypoints :: "vec3 list"
  mesh :: "sphere_mesh option"

text \<open>The \<open>config\<close> argument: every key may be absent, then the default is used.\<close>

record enemy_config =
  cfg_health :: "real option"
  cfg_speed :: "real option"
  cfg_value :: "real option"
  cfg_size :: "real option"

definition orDefault :: "'a option \<Rightarrow> 'a \<Rightarrow> 'a" where
  "orDefault v d = (case v of None \<Rightarrow> d | Some x \<Rightarrow> x)"

text \<open>
  The constructor called with a path object, whose waypoints are always an array.  With
  an empty array it logs an error and returns early: the object exists, with its stats,
  but has no mesh.
\<close>

definition Enemy_ctor :: "path \<Rightarrow> enemy_config \<Rightarrow> enemy" where
  "Enemy_ctor p config =
     (let wps = getWaypoints p in
      \<lparr>health = orDefault (cfg_health config) 100,
       speed = orDefault (cfg_speed config) 2,
       evalue = orDefault (cfg_value config) 10,
       currentWaypointIndex = 0,
       waypoints = wps,
       mesh = (case wps of
                 [] \<Rightarrow> None
               | w # _ \<Rightarrow> Some \<lparr>position = w, radius = orDefault (cfg_size config) 0.5\<rparr>)\<rparr>)"

text \<open>
  \<open>new Enemy(path, scene, config)\<close> where \<open>path\<close> may be null or undefined: the call
  \<open>this.path.getWaypoints()\<close> then throws and no object is returned.
\<close>

definition Enemy_new :: "path option \<Rightarrow> enemy_config \<Rightarrow> error + enemy" where
  "Enemy_new p config =
     (case p of None \<Rightarrow> Inl TypeError | Some q \<Rightarrow> Inr (Enemy_ctor q config))"

definition isDead :: "enemy \<Rightarrow> bool" where
  "isDead e = (health e \<le> 0)"

definition hasReachedEnd :: "enemy \<Rightarrow> bool" where
  "hasReachedEnd e = (currentWaypointIndex e \<ge> length (waypoints e))"

text \<open>
  \<open>Enemy.update\<close>.  Past the first test the index is below the length of the route, so
  the waypoint exists and the test for a missing waypoint never fires.
\<close>

definition Enemy_update :: "real \<Rightarrow> enemy \<Rightarrow> enemy" where
  "Enemy_update deltaTime e =
     (case mesh e of
        None \<Rightarrow> e
      | Some m \<Rightarrow>
          if hasReachedEnd e then e
          else
            let targetWaypoint = waypoints e ! currentWaypointIndex e;
                direction = subVectors targetWaypoint (position m);
                distance = vlength direction;
                moveDistance = speed e * deltaTime
            in if moveDistance \<ge> distance
               then e\<lparr>mesh := Some (m\<lparr>position := targetWaypoint\<rparr>),
                      currentWaypointIndex := currentWaypointIndex e + 1\<rparr>
               else e\<lparr>mesh := Some (m\<lparr>position :=
                        addScaledVector (position m) (normalize direction) moveDistance\<rparr>)\<rparr>)"

definition takeDamage :: "real \<Rightarrow> enemy \<Rightarrow> enemy" where
  "takeDamage amount e = e\<lparr>health := health e - amount\<rparr>"

definition Enemy_dispose :: "enemy \<Rightarrow> enemy" where
  "Enemy_dispose e = e\<lparr>mesh := None\<rparr>"

text \<open>The operations that can be applied to an enemy during its lifetime.\<close>

datatype enemy_op = Update real | TakeDamage real | Dispose

fun apply_enemy_op :: "enemy_op \<Rightarrow> enemy \<Rightarrow> enemy" where
  "apply_enemy_op (Update dt) e = Enemy_update dt e"
| "apply_enemy_op (TakeDamage a) e = takeDamage a e"
| "apply_enemy_op Dispose e = Enemy_dispose e"

fun run_enemy_ops :: "enemy_op list \<Rightarrow> enemy \<Rightarrow> enemy" where
  "run_enemy_ops [] e = e"
| "run_enemy_ops (x # xs) e = run_enemy_ops xs (apply_enemy_op x e)"

section \<open>Projectile.js\<close>

text \<open>
  Towers and projectiles hold JavaScript references to enemy objects, and a projectile
  damages its target through that reference.  Enemy objects therefore live in a heap,
  a function from references to enemies; the live collection is a list of references.
\<close>

type_synonym ref = nat

type_synonym heap = "ref \<Rightarrow> enemy"

record projectile =
  targetEnemy :: "ref option"
  pspeed :: real
  pdamage :: real
  pmesh :: sphere_mesh

datatype projectile_status = INVALID_TARGET | HIT_TARGET | MOVING

definition Projectile_new :: "vec3 \<Rightarrow> ref \<Rightarrow> real \<Rightarrow> real \<Rightarrow> real \<Rightarrow> projectile" where
  "Projectile_new startPosition target speed' radius' damage' =
     \<lparr>targetEnemy = Some target, pspeed = speed', pdamage = damage',
      pmesh = \<lparr>position = startPosition, radius = radius'\<rparr>\<rparr>"

text \<open>\<open>a || d\<close> on numbers: the fallback is taken when \<open>a\<close> is zero.\<close>

definition orElse :: "real \<Rightarrow> real \<Rightarrow> real" where
  "orElse a d = (if a = 0 then d else a)"

text \<open>
  \<open>Projectile.update\<close>.  Reading \<open>this.targetEnemy.mesh.position\<close> throws when the
  target has no mesh.
\<close>

definition Projectile_update ::
  "real \<Rightarrow> heap \<Rightarrow> projectile \<Rightarrow> error + (projectile_status \<times> projectile \<times> heap)" where
  "Projectile_update deltaTime h p =
     (case targetEnemy p of
        None \<Rightarrow> Inr (INVALID_TARGET, p, h)
      | Some r \<Rightarrow>
          if isDead (h r) then Inr (INVALID_TARGET, p, h)
          else
            (case mesh (h r) of
               None \<Rightarrow> Inl TypeError
             | Some m \<Rightarrow>
                 let targetPosition = position m;
                     direction = subVectors targetPosition (position (pmesh p));
                     distance = vlength direction;
                     moveDistance = pspeed p * deltaTime;
                     hitThreshold = orElse (radius m) 0.5 + orElse (radius (pmesh p)) 0.1
                 in if distance \<le> moveDistance \<or> distance \<le> hitThreshold
                    then Inr (HIT_TARGET, p, h(r := takeDamage (pdamage p) (h r)))
                    else Inr (MOVING,
                           p\<lparr>pmesh := (pmesh p)\<lparr>position :=
                                addScaledVector (position (pmesh p)) (normalize direction) moveDistance\<rparr>\<rparr>,
                           h)))"

section \<open>Tower.js\<close>

record box_mesh =
  bposition :: vec3
  bheight :: real

record tower =
  cost :: real
  tposition :: vec3
  level :: nat
  baseDamage :: real
  baseRange :: real
  fireRate :: real
  damage :: real
  trange :: real
  currentTarget :: "ref option"
  fireCooldown :: real
  tmesh :: box_mesh

record tower_config =
  tc_cost :: "real option"
  tc_height :: "real option"
  tc_range :: "real option"
  tc_damage :: "real option"
  tc_fireRate :: "real option"

definition Tower_new :: "vec3 \<Rightarrow> tower_config \<Rightarrow> tower" where
  "Tower_new pos config =
     (let height = orDefault (tc_height config) 1.5 in
      \<lparr>cost = orDefault (tc_cost config) 50,
       tposition = pos,
       level = 1,
       baseDamage = orDefault (tc_damage config) 10,
       baseRange = orDefault (tc_range config) 5,
       fireRate = orDefault (tc_fireRate config) 1,
       damage = orDefault (tc_damage config) 10,
       trange = orDefault (tc_range config) 5,
       currentTarget = None,
       fireCooldown = 0,
       tmesh = \<lparr>bposition = Vector3 (vx pos) (vy pos + height / 2) (vz pos), bheight = height\<rparr>\<rparr>)"

definition getUpgradeCost :: "tower \<Rightarrow> real" where
  "getUpgradeCost t = of_int \<lfloor>cost t * 1.8 ^ level t\<rfloor>"

definition upgrade :: "tower \<Rightarrow> tower" where
  "upgrade t =
     (let l = level t + 1 in
      t\<lparr>level := l, damage := baseDamage t * 1.2 ^ (l - 1), trange := baseRange t * 1.1 ^ (l - 1)\<rparr>)"

text \<open>The \<open>for\<close> loop of \<open>findTarget\<close>: dead enemies are skipped before their mesh is read.\<close>

fun scanTarget :: "heap \<Rightarrow> tower \<Rightarrow> ref list \<Rightarrow> error + ref option" where
  "scanTarget h t [] = Inr None"
| "scanTarget h t (r # rs) =
     (if isDead (h r) then scanTarget h t rs
      else (case mesh (h r) of
              None \<Rightarrow> Inl TypeError
            | Some m \<Rightarrow>
                if distanceToSquared (bposition (tmesh t)) (position m) \<le> trange t * trange t
                then Inr (Some r)
                else scanTarget h t rs))"

definition findTarget :: "heap \<Rightarrow> tower \<Rightarrow> ref list \<Rightarrow> error + tower" where
  "findTarget h t enemies =
     (case scanTarget h t enemies of
        Inl e \<Rightarrow> Inl e
      | Inr None \<Rightarrow> Inr (t\<lparr>currentTarget := None\<rparr>)
      | Inr (Some r) \<Rightarrow>
          if isDead (h r) then Inr (t\<lparr>currentTarget := None\<rparr>)
          else (case mesh (h r) of
                  None \<Rightarrow> Inl TypeError
                | Some m \<Rightarrow>
                    if distanceToSquared (bposition (tmesh t)) (position m) > trange t * trange t
                    then Inr (t\<lparr>currentTarget := None\<rparr>)
                    else Inr (t\<lparr>currentTarget := Some r\<rparr>)))"

text \<open>
  \<open>attack\<close> pushes a projectile onto the shared projectile array and resets the
  cooldown to \<open>1 / fireRate\<close> (for a zero fire rate JavaScript gives Infinity, which
  the reals do not have).
\<close>

definition attack :: "heap \<Rightarrow> tower \<Rightarrow> ref option \<Rightarrow> projectile list \<Rightarrow> tower \<times> projectile list" where
  "attack h t target ps =
     (case target of
        None \<Rightarrow> (t\<lparr>currentTarget := None\<rparr>, ps)
      | Some r \<Rightarrow>
          if isDead (h r) then (t\<lparr>currentTarget := None\<rparr>, ps)
          else
            let towerHeight = bheight (tmesh t);
                c = bposition (tmesh t);
                startPos = Vector3 (vx c) (vy c + (towerHeight / 2 + 0.1)) (vz c);
                projectile = Projectile_new startPos r 20 0.1 (damage t)
            in (t\<lparr>fireCooldown := 1 / fireRate t\<rparr>, ps @ [projectile]))"

text \<open>Whether \<open>Tower.update\<close> has to look for a new target.\<close>

definition targetInvalid :: "heap \<Rightarrow> tower \<Rightarrow> error + bool" where
  "targetInvalid h t =
     (case currentTarget t of
        None \<Rightarrow> Inr True
      | Some r \<Rightarrow>
          if isDead (h r) then Inr True
          else (case mesh (h r) of
                  None \<Rightarrow> Inl TypeError
                | Some m \<Rightarrow>
                    Inr (distanceToSquared (bposition (tmesh t)) (position m) > trange t * trange t)))"

definition Tower_update ::
  "real \<Rightarrow> ref list \<Rightarrow> heap \<Rightarrow> tower \<Rightarrow> projectile list \<Rightarrow> error + (tower \<times> projectile list)" where
  "Tower_update deltaTime enemies h t ps =
     (let t1 = (if fireCooldown t > 0 then t\<lparr>fireCooldown := fireCooldown t - deltaTime\<rparr> else t) in
      case targetInvalid h t1 of
        Inl e \<Rightarrow> Inl e
      | Inr invalid \<Rightarrow>
          (case (if invalid then findTarget h t1 enemies else Inr t1) of
             Inl e \<Rightarrow> Inl e
           | Inr t2 \<Rightarrow>
               if currentTarget t2 \<noteq> None \<and> fireCooldown t2 \<le> 0
               then Inr (attack h t2 (currentTarget t2) ps)
               else Inr (t2, ps)))"

section \<open>WaveManager.js\<close>

record spawn_info =
  stype :: string
  count :: int
  interval :: real

record wave_config =
  wenemies :: "spawn_info list"
  delay :: real

text \<open>The table \<open>ENEMY_CONFIGS\<close>, looked up by its own keys.\<close>

definition ENEMY_CONFIGS :: "string \<Rightarrow> enemy_config option" where
  "ENEMY_CONFIGS ty =
     (if ty = ''standard'' then
        Some \<lparr>cfg_health = Some 100, cfg_speed = Some 1.5, cfg_value = Some 10, cfg_size = Some 0.5\<rparr>
      else if ty = ''fast'' then
        Some \<lparr>cfg_health = Some 50, cfg_speed = Some 3.0, cfg_value = Some 8, cfg_size = Some 0.4\<rparr>
      else if ty = ''tough'' then
        Some \<lparr>cfg_health = Some 250, cfg_speed = Some 1.0, cfg_value = Some 20, cfg_size = Some 0.7\<rparr>
      else None)"

text \<open>
  The enemies array is shared between the main module and the wave manager; it is
  passed in and out together with the heap of enemy objects.
\<close>

record enemy_store =
  enemies :: "ref list"
  heap :: heap
  nextRef :: ref

definition pushEnemy :: "enemy \<Rightarrow> enemy_store \<Rightarrow> enemy_store" where
  "pushEnemy e st =
     st\<lparr>enemies := enemies st @ [nextRef st],
        heap := (heap st)(nextRef st := e),
        nextRef := nextRef st + 1\<rparr>"

record waveManager =
  wpath :: path
  waveConfigs :: "wave_config list"
  currentWaveIndex :: int
  spawnTimer :: real
  enemiesToSpawn :: "spawn_info list"
  activeWave :: bool
  timeUntilNextWave :: real

definition WaveManager_new :: "path \<Rightarrow> waveManager" where
  "WaveManager_new p =
     \<lparr>wpath = p,
      waveConfigs =
        [\<lparr>wenemies = [\<lparr>stype = ''standard'', count = 5, interval = 1.0\<rparr>], delay = 3.0\<rparr>,
         \<lparr>wenemies = [\<lparr>stype = ''standard'', count = 8, interval = 0.8\<rparr>,
                      \<lparr>stype = ''fast'', count = 3, interval = 1.5\<rparr>], delay = 5.0\<rparr>,
         \<lparr>wenemies = [\<lparr>stype = ''tough'', count = 2, interval = 2.0\<rparr>,
                      \<lparr>stype = ''standard'', count = 10, interval = 0.5\<rparr>,
                      \<lparr>stype = ''fast'', count = 5, interval = 0.7\<rparr>], delay = 5.0\<rparr>],
      currentWaveIndex = -1,
      spawnTimer = 0,
      enemiesToSpawn = [],
      activeWave = False,
      timeUntilNextWave = 0\<rparr>"

datatype wave_result = R_WAVE_ACTIVE | R_GAME_WON | R_WAVE_STARTED | R_WAVE_COMPLETE

text \<open>
  \<open>startNextWave\<close>.  The index starts at \<open>-1\<close> and only grows; were it still negative
  after the increment, \<open>currentConfig\<close> would be undefined and reading its \<open>enemies\<close>
  would throw.
\<close>

definition startNextWave :: "waveManager \<Rightarrow> error + (wave_result \<times> waveManager)" where
  "startNextWave wm =
     (if activeWave wm then Inr (R_WAVE_ACTIVE, wm)
      else
        let wm1 = wm\<lparr>currentWaveIndex := currentWaveIndex wm + 1\<rparr> in
        if currentWaveIndex wm1 \<ge> int (length (waveConfigs wm1)) then Inr (R_GAME_WON, wm1)
        else if currentWaveIndex wm1 < 0 then Inl TypeError
        else
          let currentConfig = waveConfigs wm1 ! nat (currentWaveIndex wm1) in
          Inr (R_WAVE_STARTED,
               wm1\<lparr>enemiesToSpawn := wenemies currentConfig, spawnTimer := 0, activeWave := True\<rparr>))"

definition getCurrentWaveNumber :: "waveManager \<Rightarrow> int" where
  "getCurrentWaveNumber wm = currentWaveIndex wm + 1"

text \<open>The completion check at the end of \<open>WaveManager.update\<close>.\<close>

definition checkWaveComplete ::
  "waveManager \<Rightarrow> enemy_store \<Rightarrow> wave_result option \<times> waveManager \<times> enemy_store" where
  "checkWaveComplete wm st =
     (if enemiesToSpawn wm = [] \<and> enemies st = []
      then (Some R_WAVE_COMPLETE, wm\<lparr>activeWave := False\<rparr>, st)
      else (None, wm, st))"

definition WaveManager_update ::
  "real \<Rightarrow> waveManager \<Rightarrow> enemy_store \<Rightarrow> wave_result option \<times> waveManager \<times> enemy_store" where
  "WaveManager_update deltaTime wm st =
     (if \<not> activeWave wm then (None, wm, st)
      else
        let wm1 = wm\<lparr>spawnTimer := spawnTimer wm - deltaTime\<rparr> in
        if spawnTimer wm1 \<le> 0 then
          (case enemiesToSpawn wm1 of
             [] \<Rightarrow> checkWaveComplete wm1 st
           | spawnInfo # rest \<Rightarrow>
               (case ENEMY_CONFIGS (stype spawnInfo) of
                  None \<Rightarrow> (None, wm1\<lparr>enemiesToSpawn := rest\<rparr>, st)
                | Some enemyTypeConfig \<Rightarrow>
                    let st1 = pushEnemy (Enemy_ctor (wpath wm1) enemyTypeConfig) st;
                        spawnInfo1 = spawnInfo\<lparr>count := count spawnInfo - 1\<rparr>;
                        wm2 = wm1\<lparr>enemiesToSpawn := spawnInfo1 # rest,
                                  spawnTimer := interval spawnInfo1\<rparr>;
                        wm3 = (if count spawnInfo1 \<le> 0
                               then (case rest of
                                       [] \<Rightarrow> wm2\<lparr>enemiesToSpawn := rest\<rparr>
                                     | nxt # _ \<Rightarrow> wm2\<lparr>enemiesToSpawn := rest,
                                                       spawnTimer := interval nxt\<rparr>)
                               else wm2)
                    in checkWaveComplete wm3 st1))
        else checkWaveComplete wm1 st)"

section \<open>main.js\<close>

datatype game_status = IDLE | WAVE_ACTIVE | WAVE_COMPLETE | GAME_OVER | GAME_WON

record game =
  playerGold :: real
  playerLives :: int
  currentWaveNumber :: int
  gameStatus :: game_status
  waveManager :: waveManager
  towers :: "tower list"
  projectiles :: "projectile list"
  store :: enemy_store

definition initialGame :: game where
  "initialGame =
     \<lparr>playerGold = 100, playerLives = 20, currentWaveNumber = 0, gameStatus = IDLE,
      waveManager = WaveManager_new Path_new, towers = [], projectiles = [],
      store = \<lparr>enemies = [],
               heap = (\<lambda>_. Enemy_ctor Path_new
                  \<lparr>cfg_health = None, cfg_speed = None, cfg_value = None, cfg_size = None\<rparr>),
               nextRef = 0\<rparr>\<rparr>"

text \<open>The click handler of the start-wave button.\<close>

definition startWaveClick :: "game \<Rightarrow> error + game" where
  "startWaveClick g =
     (if gameStatus g = IDLE \<or> gameStatus g = WAVE_COMPLETE then
        (case startNextWave (waveManager g) of
           Inl e \<Rightarrow> Inl e
         | Inr (waveResult, wm) \<Rightarrow>
             if waveResult = R_WAVE_STARTED
             then Inr (g\<lparr>waveManager := wm, gameStatus := WAVE_ACTIVE,
                         currentWaveNumber := getCurrentWaveNumber wm\<rparr>)
             else if waveResult = R_GAME_WON
             then Inr (g\<lparr>waveManager := wm, gameStatus := GAME_WON\<rparr>)
             else Inr (g\<lparr>waveManager := wm\<rparr>))
      else Inr g)"

text \<open>Step 2 of \<open>animate\<close>: every tower is updated in array order.\<close>

fun updateTowers ::
  "real \<Rightarrow> ref list \<Rightarrow> heap \<Rightarrow> tower list \<Rightarrow> projectile list \<Rightarrow> error + (tower list \<times> projectile list)" where
  "updateTowers dt es h [] ps = Inr ([], ps)"
| "updateTowers dt es h (t # ts) ps =
     (case Tower_update dt es h t ps of
        Inl e \<Rightarrow> Inl e
      | Inr (t', ps') \<Rightarrow>
          (case updateTowers dt es h ts ps' of
             Inl e \<Rightarrow> Inl e
           | Inr (ts', ps'') \<Rightarrow> Inr (t' # ts', ps'')))"

text \<open>
  Step 3: the projectile loop runs the index from \<open>length - 1\<close> down to \<open>0\<close>; the first
  argument is the index plus one.  A projectile that hit or lost its target is spliced
  out.  Only the current index is ever removed, so the index stays within the array.
\<close>

fun updateProjectiles ::
  "real \<Rightarrow> nat \<Rightarrow> projectile list \<times> heap \<Rightarrow> error + (projectile list \<times> heap)" where
  "updateProjectiles dt 0 (ps, h) = Inr (ps, h)"
| "updateProjectiles dt (Suc i) (ps, h) =
     (case Projectile_update dt h (ps ! i) of
        Inl e \<Rightarrow> Inl e
      | Inr (status, p', h') \<Rightarrow>
          if status = HIT_TARGET \<or> status = INVALID_TARGET
          then updateProjectiles dt i (take i ps @ drop (Suc i) ps, h')
          else updateProjectiles dt i (ps[i := p'], h'))"

text \<open>
  Step 4: the body of the enemy loop at index \<open>i\<close>.  The flag says that the body
  executed \<open>return\<close>, which leaves \<open>animate\<close> at once.
\<close>

definition spliceEnemy :: "nat \<Rightarrow> ref \<Rightarrow> enemy_store \<Rightarrow> enemy_store" where
  "spliceEnemy i r st =
     st\<lparr>heap := (heap st)(r := Enemy_dispose (heap st r)),
        enemies := take i (enemies st) @ drop (Suc i) (enemies st)\<rparr>"

definition enemyStep :: "real \<Rightarrow> nat \<Rightarrow> game \<Rightarrow> game \<times> bool" where
  "enemyStep dt i g =
     (let r = enemies (store g) ! i;
          st1 = (store g)\<lparr>heap := (heap (store g))(r := Enemy_update dt (heap (store g) r))\<rparr>;
          enemy = heap st1 r
      in if isDead enemy
         then (g\<lparr>playerGold := playerGold g + evalue enemy, store := spliceEnemy i r st1\<rparr>, False)
         else if hasReachedEnd enemy then
           (let lives = playerLives g - 1 in
            if lives \<le> 0
            then (g\<lparr>playerLives := 0, gameStatus := GAME_OVER, store := st1\<rparr>, True)
            else (g\<lparr>playerLives := lives, store := spliceEnemy i r st1\<rparr>, False))
         else (g\<lparr>store := st1\<rparr>, False))"

fun updateEnemies :: "real \<Rightarrow> nat \<Rightarrow> game \<Rightarrow> game" where
  "updateEnemies dt 0 g = g"
| "updateEnemies dt (Suc i) g =
     (case enemyStep dt i g of
        (g', True) \<Rightarrow> g'
      | (g', False) \<Rightarrow> updateEnemies dt i g')"

text \<open>
  One frame.  \<open>deltaTime\<close> comes from the clock; drawing and the user interface are
  left out.  An exception thrown by a tower or a projectile leaves \<open>animate\<close>.
\<close>

definition animate :: "real \<Rightarrow> game \<Rightarrow> error + game" where
  "animate deltaTime g =
     (if gameStatus g = GAME_OVER \<or> gameStatus g = GAME_WON then Inr g
      else
        (case WaveManager_update deltaTime (waveManager g) (store g) of
           (waveStatus, wm, st) \<Rightarrow>
             let g1 = g\<lparr>waveManager := wm, store := st,
                        gameStatus := (if waveStatus = Some R_WAVE_COMPLETE
                                       then WAVE_COMPLETE else gameStatus g)\<rparr>
             in (case updateTowers deltaTime (enemies st) (heap st) (towers g1) (projectiles g1) of
                   Inl e \<Rightarrow> Inl e
                 | Inr (ts, ps) \<Rightarrow>
                     (case updateProjectiles deltaTime (length ps) (ps, heap st) of
                        Inl e \<Rightarrow> Inl e
                      | Inr (ps', h') \<Rightarrow>
                          Inr (updateEnemies deltaTime (length (enemies st))
                                 (g1\<lparr>towers := ts, projectiles := ps',
                                     store := st\<lparr>heap := h'\<rparr>\<rparr>))))))"

section \<open>Vocabulary of the specification and example data\<close>

definition vadd :: "vec3 \<Rightarrow> vec3 \<Rightarrow> vec3" where
  "vadd a b = Vector3 (vx a + vx b) (vy a + vy b) (vz a + vz b)"

definition multiplyScalar :: "vec3 \<Rightarrow> real \<Rightarrow> vec3" where
  "multiplyScalar v s = Vector3 (vx v * s) (vy v * s) (vz v * s)"

definition defaultConfig :: enemy_config where
  "defaultConfig = \<lparr>cfg_health = None, cfg_speed = None, cfg_value = None, cfg_size = None\<rparr>"

definition emptyPath :: path where
  "emptyPath = \<lparr>pwaypoints = []\<rparr>"

text \<open>An enemy at the origin walking towards a waypoint three units away.\<close>

definition walker :: enemy where
  "walker = \<lparr>health = 100, speed = 2, evalue = 10, currentWaypointIndex = 0,
     waypoints = [Vector3 3 0 0, Vector3 3 0 5],
     mesh = Some \<lparr>position = Vector3 0 0 0, radius = 0.5\<rparr>\<rparr>"

text \<open>The wave manager of the game right after its first wave was started.\<close>

definition startedWave :: waveManager where
  "startedWave = (WaveManager_new Path_new)\<lparr>currentWaveIndex := 0,
      enemiesToSpawn := [\<lparr>stype = ''standard'', count = 5, interval = 1.0\<rparr>],
      spawnTimer := 0, activeWave := True\<rparr>"

text \<open>The tower that the build command of the main module places, here at the origin.\<close>

definition mainTowerConfig :: tower_config where
  "mainTowerConfig = \<lparr>tc_cost = Some 50, tc_height = None, tc_range = Some 6,
     tc_damage = Some 30, tc_fireRate = Some 1.2\<rparr>"

definition freshTower :: tower where
  "freshTower = Tower_new (Vector3 0 0 0) mainTowerConfig"

definition coolingTower :: tower where
  "coolingTower = freshTower\<lparr>fireCooldown := 0.1\<rparr>"

text \<open>An enemy is in range of a tower when its squared distance is at most \<open>range\<^sup>2\<close>.\<close>

definition inRange :: "heap \<Rightarrow> tower \<Rightarrow> ref \<Rightarrow> bool" where
  "inRange h t r =
     (case mesh (h r) of
        None \<Rightarrow> False
      | Some m \<Rightarrow> distanceToSquared (bposition (tmesh t)) (position m) \<le> trange t * trange t)"

definition enemyAt :: "vec3 \<Rightarrow> enemy" where
  "enemyAt p = \<lparr>health = 100, speed = 1.5, evalue = 10, currentWaypointIndex = 1,
     waypoints = pwaypoints Path_new, mesh = Some \<lparr>position = p, radius = 0.5\<rparr>\<rparr>"

text \<open>Two live enemies in range of the tower at the origin; enemy 0 is the farther one.\<close>

definition twoEnemies :: heap where
  "twoEnemies = (\<lambda>_. walker)(0 := enemyAt (Vector3 4 0.75 0), 1 := enemyAt (Vector3 1 0.75 0))"

text \<open>
  \<open>WaveManager.update\<close> takes its early \<open>return null\<close> when the spawn timer has run out
  and the group at the front of the queue names an enemy type that is not in the table.
\<close>

definition dropsUnknownGroup :: "real \<Rightarrow> waveManager \<Rightarrow> bool" where
  "dropsUnknownGroup dt wm =
     (spawnTimer wm - dt \<le> 0 \<and>
      (case enemiesToSpawn wm of [] \<Rightarrow> False | g # _ \<Rightarrow> ENEMY_CONFIGS (stype g) = None))"

text \<open>A wave table whose only wave holds one group of an unknown type, and that wave started.\<close>

definition bossManager :: waveManager where
  "bossManager = (WaveManager_new Path_new)\<lparr>waveConfigs :=
      [\<lparr>wenemies = [\<lparr>stype = ''boss'', count = 1, interval = 1\<rparr>], delay = 0\<rparr>]\<rparr>"

definition bossWave :: waveManager where
  "bossWave = bossManager\<lparr>currentWaveIndex := 0,
      enemiesToSpawn := [\<lparr>stype = ''boss'', count = 1, interval = 1\<rparr>],
      spawnTimer := 0, activeWave := True\<rparr>"

definition emptyStore :: enemy_store where
  "emptyStore = \<lparr>enemies = [], heap = (\<lambda>_. walker), nextRef = 0\<rparr>"

text \<open>The first wave with one enemy left to spawn, and with its queue drained.\<close>

definition lastSpawn :: waveManager where
  "lastSpawn = startedWave\<lparr>enemiesToSpawn := [\<lparr>stype = ''standard'', count = 1, interval = 1.0\<rparr>]\<rparr>"

definition drainedWave :: waveManager where
  "drainedWave = startedWave\<lparr>enemiesToSpawn := [], spawnTimer := 0.5\<rparr>"

text \<open>An enemy one tenth of a unit before the last waypoint.\<close>

definition runner :: enemy where
  "runner = \<lparr>health = 100, speed = 1.5, evalue = 10, currentWaypointIndex = 3,
     waypoints = pwaypoints Path_new,
     mesh = Some \<lparr>position = Vector3 14.9 0.1 15, radius = 0.5\<rparr>\<rparr>"

definition arrived :: enemy where
  "arrived = runner\<lparr>mesh := Some \<lparr>position = Vector3 15 0.1 15, radius = 0.5\<rparr>,
     currentWaypointIndex := 4\<rparr>"

text \<open>
  A game on its last life: the wave is active with its queue drained, there are no towers
  or projectiles, and the only live enemy is about to arrive.
\<close>

definition lastLifeGame :: game where
  "lastLifeGame =
     \<lparr>playerGold = 100, playerLives = 1, currentWaveNumber = 1, gameStatus = WAVE_ACTIVE,
      waveManager = drainedWave, towers = [], projectiles = [],
      store = \<lparr>enemies = [0], heap = (\<lambda>_. walker)(0 := runner), nextRef = 1\<rparr>\<rparr>"

text \<open>The state that one tick of 0.1 seconds makes of it.\<close>

definition gameOverGame :: game where
  "gameOverGame = lastLifeGame\<lparr>playerLives := 0, gameStatus := GAME_OVER,
      waveManager := drainedWave\<lparr>spawnTimer := 0.4\<rparr>,
      store := \<lparr>enemies = [0], heap = (\<lambda>_. walker)(0 := arrived), nextRef = 1\<rparr>\<rparr>"

text \<open>The same enemy killed by a projectile earlier in the tick.\<close>

definition deadRunner :: enemy where
  "deadRunner = runner\<lparr>health := -20\<rparr>"

definition deadRunnerGame :: game where
  "deadRunnerGame = lastLifeGame\<lparr>store := \<lparr>enemies = [0], heap = (\<lambda>_. walker)(0 := deadRunner), nextRef = 1\<rparr>\<rparr>"

text \<open>The last-life game after the wave manager has run in the tick.\<close>

definition lastLifeTicked :: game where
  "lastLifeTicked = lastLifeGame\<lparr>waveManager := drainedWave\<lparr>spawnTimer := 0.4\<rparr>\<rparr>"

text \<open>
  A game in which a projectile is still chasing an enemy that has walked out of the range
  of the tower that fired and is about to reach the end of the route alive; and the
  state after one tick of 0.1 seconds.
\<close>

definition chaseTower :: tower where
  "chaseTower = (Tower_new (Vector3 8.9 0 15) mainTowerConfig)\<lparr>currentTarget := Some 0, fireCooldown := 0.6\<rparr>"

definition idleTower :: tower where
  "idleTower = chaseTower\<lparr>currentTarget := None, fireCooldown := 0.5\<rparr>"

definition chaser :: projectile where
  "chaser = \<lparr>targetEnemy = Some 0, pspeed = 20, pdamage = 30,
     pmesh = \<lparr>position = Vector3 12.5 1.1 15, radius = 0.1\<rparr>\<rparr>"

definition strayProjectile :: projectile where
  "strayProjectile = chaser\<lparr>pmesh := \<lparr>position = Vector3 (373 / 26) (43 / 130) 15, radius = 0.1\<rparr>\<rparr>"

definition chaseHeap :: heap where
  "chaseHeap = (\<lambda>_. walker)(0 := runner)"

definition disposedHeap :: heap where
  "disposedHeap = (\<lambda>_. walker)(0 := Enemy_dispose arrived)"

definition chaseGame :: game where
  "chaseGame =
     \<lparr>playerGold = 100, playerLives = 5, currentWaveNumber = 1, gameStatus = WAVE_ACTIVE,
      waveManager = drainedWave, towers = [chaseTower], projectiles = [chaser],
      store = \<lparr>enemies = [0], heap = chaseHeap, nextRef = 1\<rparr>\<rparr>"

definition chaseGameTicked :: game where
  "chaseGameTicked =
     \<lparr>playerGold = 100, playerLives = 4, currentWaveNumber = 1, gameStatus = WAVE_ACTIVE,
      waveManager = drainedWave\<lparr>spawnTimer := 0.4\<rparr>, towers = [idleTower],
      projectiles = [strayProjectile],
      store = \<lparr>enemies = [], heap = disposedHeap, nextRef = 1\<rparr>\<rparr>"

text \<open>
  The live collection is well formed when its references are distinct, were all
  allocated, and every enemy in it has a mesh.
\<close>

definition liveMeshes :: "enemy_store \<Rightarrow> bool" where
  "liveMeshes st =
     (distinct (enemies st) \<and>
      (\<forall>r\<in>set (enemies st). r < nextRef st \<and> mesh (heap st r) \<noteq> None))"

text \<open>
  A game on its last life in which the only enemy, with 10 health left, is within reach
  of a projectile fired by a twice upgraded tower at the corner of the ground, and one
  tenth of a unit before the end of the route; the state of that frame when the enemy
  loop starts; and the state after the frame.
\<close>

definition weakRunner :: enemy where
  "weakRunner = runner\<lparr>health := 10\<rparr>"

definition cornerTower :: tower where
  "cornerTower = (upgrade (upgrade (Tower_new (Vector3 10 0 10) mainTowerConfig)))
     \<lparr>currentTarget := Some 0, fireCooldown := 0.5\<rparr>"

definition closeShot :: projectile where
  "closeShot = \<lparr>targetEnemy = Some 0, pspeed = 20, pdamage = 43.2,
     pmesh = \<lparr>position = Vector3 14.5 0.4 15, radius = 0.1\<rparr>\<rparr>"

definition standHeap :: heap where
  "standHeap = (\<lambda>_. walker)(0 := weakRunner)"

definition hitRunner :: enemy where
  "hitRunner = weakRunner\<lparr>health := - 33.2\<rparr>"

definition fallen :: enemy where
  "fallen = arrived\<lparr>health := - 33.2\<rparr>"

definition hitHeap :: heap where
  "hitHeap = (\<lambda>_. walker)(0 := hitRunner)"

definition reapedHeap :: heap where
  "reapedHeap = (\<lambda>_. walker)(0 := Enemy_dispose fallen)"

definition lastStandGame :: game where
  "lastStandGame =
     \<lparr>playerGold = 100, playerLives = 1, currentWaveNumber = 1, gameStatus = WAVE_ACTIVE,
      waveManager = drainedWave, towers = [cornerTower], projectiles = [closeShot],
      store = \<lparr>enemies = [0], heap = standHeap, nextRef = 1\<rparr>\<rparr>"

definition lastStandMid :: game where
  "lastStandMid =
     \<lparr>playerGold = 100, playerLives = 1, currentWaveNumber = 1, gameStatus = WAVE_ACTIVE,
      waveManager = drainedWave\<lparr>spawnTimer := 0.4\<rparr>,
      towers = [cornerTower\<lparr>fireCooldown := 0.4\<rparr>], projectiles = [],
      store = \<lparr>enemies = [0], heap = hitHeap, nextRef = 1\<rparr>\<rparr>"

definition lastStandReaped :: game where
  "lastStandReaped =
     \<lparr>playerGold = 110, playerLives = 1, currentWaveNumber = 1, gameStatus = WAVE_ACTIVE,
      waveManager = drainedWave\<lparr>spawnTimer := 0.4\<rparr>,
      towers = [cornerTower\<lparr>fireCooldown := 0.4\<rparr>], projectiles = [],
      store = \<lparr>enemies = [], heap = reapedHeap, nextRef = 1\<rparr>\<rparr>"

section \<open>Enemy: movement and the route cursor\<close>

lemma Enemy_update_waypoints: "waypoints (Enemy_update dt e) = waypoints e"
  by (simp add: Enemy_update_def Let_def split: option.splits)

lemma Enemy_update_index_mono:
  "currentWaypointIndex e \<le> currentWaypointIndex (Enemy_update dt e)"
  by (simp add: Enemy_update_def Let_def split: option.splits)

lemma Enemy_update_index_step:
  "currentWaypointIndex (Enemy_update dt e) \<le> currentWaypointIndex e + 1"
  by (simp add: Enemy_update_def Let_def split: option.splits)

lemma Enemy_update_index_bound:
  "currentWaypointIndex e \<le> length (waypoints e) \<Longrightarrow>
   currentWaypointIndex (Enemy_update dt e) \<le> length (waypoints e)"
  by (simp add: Enemy_update_def Let_def hasReachedEnd_def split: option.splits)

lemma apply_enemy_op_waypoints: "waypoints (apply_enemy_op x e) = waypoints e"
  by (cases x) (simp_all add: Enemy_update_waypoints takeDamage_def Enemy_dispose_def)

lemma apply_enemy_op_index_mono:
  "currentWaypointIndex e \<le> currentWaypointIndex (apply_enemy_op x e)"
  by (cases x) (simp_all add: Enemy_update_index_mono takeDamage_def Enemy_dispose_def)

lemma apply_enemy_op_index_bound:
  "currentWaypointIndex e \<le> length (waypoints e) \<Longrightarrow>
   currentWaypointIndex (apply_enemy_op x e) \<le> length (waypoints e)"
  by (cases x) (simp_all add: Enemy_update_index_bound takeDamage_def Enemy_dispose_def)

lemma run_enemy_ops_waypoints: "waypoints (run_enemy_ops xs e) = waypoints e"
  by (induction xs arbitrary: e) (simp_all add: apply_enemy_op_waypoints)

lemma run_enemy_ops_index_mono:
  "currentWaypointIndex e \<le> currentWaypointIndex (run_enemy_ops xs e)"
proof (induction xs arbitrary: e)
  case Nil
  show ?case by simp
next
  case (Cons x xs)
  have "currentWaypointIndex e \<le> currentWaypointIndex (apply_enemy_op x e)"
    by (rule apply_enemy_op_index_mono)
  also have "\<dots> \<le> currentWaypointIndex (run_enemy_ops xs (apply_enemy_op x e))"
    by (rule Cons.IH)
  finally show ?case by simp
qed

lemma run_enemy_ops_index_bound:
  "currentWaypointIndex e \<le> length (waypoints e) \<Longrightarrow>
   currentWaypointIndex (run_enemy_ops xs e) \<le> length (waypoints e)"
proof (induction xs arbitrary: e)
  case Nil
  then show ?case by simp
next
  case (Cons x xs)
  from Cons.prems have "currentWaypointIndex (apply_enemy_op x e)
      \<le> length (waypoints (apply_enemy_op x e))"
    by (simp add: apply_enemy_op_index_bound apply_enemy_op_waypoints)
  from Cons.IH [OF this] show ?case
    by (simp add: apply_enemy_op_waypoints)
qed

lemma run_enemy_ops_append:
  "run_enemy_ops (xs @ ys) e = run_enemy_ops ys (run_enemy_ops xs e)"
  by (induction xs arbitrary: e) simp_all

lemma vlength_nonneg: "0 \<le> vlength v"
  by (simp add: vlength_def)

lemma vlength_scaled:
  "vlength (Vector3 (c * x) (c * y) (c * z)) = \<bar>c\<bar> * vlength (Vector3 x y z)"
proof -
  have "(c * x) * (c * x) + (c * y) * (c * y) + (c * z) * (c * z) = c\<^sup>2 * (x * x + y * y + z * z)"
    by (simp add: power2_eq_square algebra_simps)
  then show ?thesis
    by (simp add: vlength_def real_sqrt_mult)
qed

text \<open>
  In the moving branch the enemy really gets closer: after a step \<open>s\<close> with
  \<open>0 \<le> s < dist\<close> the remaining distance to the waypoint is \<open>dist - s\<close>.
\<close>

lemma move_towards_distance:
  assumes "0 \<le> s" "s < vlength (subVectors t p)"
  shows "vlength (subVectors t (addScaledVector p (normalize (subVectors t p)) s))
         = vlength (subVectors t p) - s"
proof -
  define d where "d = subVectors t p"
  define l where "l = vlength d"
  have lpos: "0 < l" using assms by (simp add: l_def d_def)
  define c where "c = 1 - s / l"
  have cpos: "0 \<le> c" using assms lpos by (simp add: c_def l_def d_def)
  have n: "normalize d = Vector3 (vx d / l) (vy d / l) (vz d / l)"
    using lpos by (simp add: normalize_def divideScalar_def l_def)
  have dx: "vx d = vx t - vx p" and dy: "vy d = vy t - vy p" and dz: "vz d = vz t - vz p"
    by (simp_all add: d_def subVectors_def)
  have k: "a - (b + (a - b) * s / l) = c * (a - b)" for a b :: real
    using lpos by (simp add: c_def field_simps)
  have eq: "subVectors t (addScaledVector p (normalize d) s)
        = Vector3 (c * vx d) (c * vy d) (c * vz d)"
    by (simp add: n subVectors_def addScaledVector_def dx dy dz k)
  have "vlength (Vector3 (c * vx d) (c * vy d) (c * vz d)) = \<bar>c\<bar> * vlength (Vector3 (vx d) (vy d) (vz d))"
    by (rule vlength_scaled)
  also have "\<dots> = c * l" using cpos by (simp add: l_def)
  also have "\<dots> = l - s" using lpos by (simp add: c_def algebra_simps)
  finally show ?thesis using eq by (simp add: d_def l_def)
qed

text \<open>
  Claim C4.  \<open>Enemy.update\<close> on an enemy that has reached the end changes nothing.
  On an enemy that has not, and has a mesh at position \<open>position m\<close>, it computes the
  distance \<open>dist\<close> to the current waypoint and \<open>step = speed \<times> dt\<close>; when
  \<open>step \<ge> dist\<close> the position becomes the waypoint and the route index grows by
  exactly one, the rest of the step being dropped; otherwise the position moves by
  \<open>normalize(toTarget) \<times> step\<close> and the index stays.  In every case the index grows by
  at most one per call, whatever \<open>dt\<close> is.
\<close>

theorem Enemy_update_advance:
  "(hasReachedEnd e \<longrightarrow> Enemy_update dt e = e) \<and>
   (\<not> hasReachedEnd e \<and> mesh e = Some m \<longrightarrow>
      (let target = waypoints e ! currentWaypointIndex e;
           toTarget = subVectors target (position m);
           dist = vlength toTarget;
           step = speed e * dt
       in (step \<ge> dist \<longrightarrow>
             Enemy_update dt e =
               e\<lparr>mesh := Some (m\<lparr>position := target\<rparr>),
                 currentWaypointIndex := currentWaypointIndex e + 1\<rparr>) \<and>
          (step < dist \<longrightarrow>
             Enemy_update dt e =
               e\<lparr>mesh := Some (m\<lparr>position :=
                    vadd (position m) (multiplyScalar (normalize toTarget) step)\<rparr>)\<rparr>))) \<and>
   currentWaypointIndex (Enemy_update dt e) \<le> currentWaypointIndex e + 1"
proof (intro conjI impI)
  assume "hasReachedEnd e"
  then show "Enemy_update dt e = e"
    by (simp add: Enemy_update_def split: option.splits)
next
  assume a: "\<not> hasReachedEnd e \<and> mesh e = Some m"
  have v: "addScaledVector p d s = vadd p (multiplyScalar d s)" for p d s
    by (simp add: addScaledVector_def vadd_def multiplyScalar_def)
  from a show "let target = waypoints e ! currentWaypointIndex e;
           toTarget = subVectors target (position m);
           dist = vlength toTarget;
           step = speed e * dt
       in (step \<ge> dist \<longrightarrow>
             Enemy_update dt e =
               e\<lparr>mesh := Some (m\<lparr>position := target\<rparr>),
                 currentWaypointIndex := currentWaypointIndex e + 1\<rparr>) \<and>
          (step < dist \<longrightarrow>
             Enemy_update dt e =
               e\<lparr>mesh := Some (m\<lparr>position :=
                    vadd (position m) (multiplyScalar (normalize toTarget) step)\<rparr>)\<rparr>)"
    by (simp add: Enemy_update_def Let_def v)
next
  show "currentWaypointIndex (Enemy_update dt e) \<le> currentWaypointIndex e + 1"
    by (rule Enemy_update_index_step)
qed

text \<open>
  The walker, three units from its waypoint with speed 2: a tick of one second moves it
  two units along the segment, a tick of two seconds snaps it onto the waypoint and
  advances the index by one although the step would cover four units.
\<close>

theorem Enemy_update_advance_witness:
  "\<not> hasReachedEnd walker \<and>
   mesh walker = Some \<lparr>position = Vector3 0 0 0, radius = 0.5\<rparr> \<and>
   Enemy_update 1 walker = walker\<lparr>mesh := Some \<lparr>position = Vector3 2 0 0, radius = 0.5\<rparr>\<rparr> \<and>
   Enemy_update 2 walker =
     walker\<lparr>mesh := Some \<lparr>position = Vector3 3 0 0, radius = 0.5\<rparr>, currentWaypointIndex := 1\<rparr> \<and>
   hasReachedEnd arrived \<and> Enemy_update 1 arrived = arrived"
proof -
  have l: "vlength (subVectors (Vector3 3 0 0) (Vector3 0 0 0)) = 3"
    by (simp add: vlength_def subVectors_def)
  have n: "normalize (subVectors (Vector3 3 0 0) (Vector3 0 0 0)) = Vector3 1 0 0"
    by (simp add: normalize_def l divideScalar_def) (simp add: subVectors_def)
  have h: "\<not> hasReachedEnd walker"
    and m: "mesh walker = Some \<lparr>position = Vector3 0 0 0, radius = 0.5\<rparr>"
    by (simp_all add: walker_def hasReachedEnd_def)
  have w: "waypoints walker ! currentWaypointIndex walker = Vector3 3 0 0"
    and s: "speed walker = 2"
    by (simp_all add: walker_def)
  from Enemy_update_advance [of walker 1 "\<lparr>position = Vector3 0 0 0, radius = 0.5\<rparr>"] h m
  have a: "Enemy_update 1 walker = walker\<lparr>mesh := Some \<lparr>position = Vector3 2 0 0, radius = 0.5\<rparr>\<rparr>"
    by (simp add: Let_def w s l n vadd_def multiplyScalar_def)
  from Enemy_update_advance [of walker 2 "\<lparr>position = Vector3 0 0 0, radius = 0.5\<rparr>"] h m
  have b: "Enemy_update 2 walker =
     walker\<lparr>mesh := Some \<lparr>position = Vector3 3 0 0, radius = 0.5\<rparr>, currentWaypointIndex := 1\<rparr>"
    by (simp add: Let_def w s l) (simp add: walker_def)
  have r: "hasReachedEnd arrived"
    by (simp add: hasReachedEnd_def arrived_def runner_def Path_new_def)
  with Enemy_update_advance [of arrived 1] have c: "Enemy_update 1 arrived = arrived"
    by simp
  from h m a b r c show ?thesis by simp
qed

text \<open>
  Claim C5.  From construction on, whatever sequence of operations (update, damage,
  dispose) is applied to an enemy, its route index never decreases from one moment
  \<open>e1\<close> to a later one \<open>e2\<close>, and it never exceeds the length of the route, which
  itself never changes.
\<close>

theorem route_index_lifetime:
  "(let e0 = Enemy_ctor p config;
        e1 = run_enemy_ops xs e0;
        e2 = run_enemy_ops ys e1
    in currentWaypointIndex e1 \<le> currentWaypointIndex e2 \<and>
       currentWaypointIndex e2 \<le> length (waypoints e2) \<and>
       waypoints e2 = getWaypoints p)"
proof -
  have w: "waypoints (Enemy_ctor p config) = getWaypoints p"
    and i: "currentWaypointIndex (Enemy_ctor p config) = 0"
    by (simp_all add: Enemy_ctor_def Let_def)
  have b: "currentWaypointIndex (run_enemy_ops (xs @ ys) (Enemy_ctor p config))
        \<le> length (waypoints (Enemy_ctor p config))"
    by (rule run_enemy_ops_index_bound) (simp add: i)
  show ?thesis
    using b run_enemy_ops_index_mono [of "run_enemy_ops xs (Enemy_ctor p config)" ys]
    by (simp add: Let_def run_enemy_ops_waypoints run_enemy_ops_append w)
qed

theorem route_index_lifetime_witness:
  "currentWaypointIndex (run_enemy_ops [Update 100] (Enemy_ctor Path_new defaultConfig))
     \<le> currentWaypointIndex
          (run_enemy_ops [TakeDamage 30, Update 100]
             (run_enemy_ops [Update 100] (Enemy_ctor Path_new defaultConfig))) \<and>
   currentWaypointIndex
     (run_enemy_ops [TakeDamage 30, Update 100]
        (run_enemy_ops [Update 100] (Enemy_ctor Path_new defaultConfig)))
     \<le> length (getWaypoints Path_new) \<and>
   length (getWaypoints Path_new) = 4"
proof -
  have "length (getWaypoints Path_new) = 4"
    by (simp add: getWaypoints_def Path_new_def)
  with route_index_lifetime [of Path_new defaultConfig "[Update 100]" "[TakeDamage 30, Update 100]"]
  show ?thesis
    unfolding Let_def by metis
qed

section \<open>WaveManager: starting a wave\<close>

text \<open>
  Claim C7.  While a wave is active \<open>startNextWave\<close> answers \<open>WAVE_ACTIVE\<close> and the
  wave manager is returned as it was: wave index, spawn queue, spawn timer and the
  active flag are untouched.  Hence a second call right after a successful start is
  rejected and does not reset the queue.
\<close>

theorem startNextWave_rejected_while_active:
  "(activeWave wm \<longrightarrow> startNextWave wm = Inr (R_WAVE_ACTIVE, wm)) \<and>
   (startNextWave wm = Inr (R_WAVE_STARTED, wm') \<longrightarrow>
      startNextWave wm' = Inr (R_WAVE_ACTIVE, wm'))"
  by (auto simp add: startNextWave_def Let_def split: if_splits)

theorem startNextWave_rejected_while_active_witness:
  "startNextWave (WaveManager_new Path_new) = Inr (R_WAVE_STARTED, startedWave) \<and>
   activeWave startedWave \<and>
   startNextWave startedWave = Inr (R_WAVE_ACTIVE, startedWave) \<and>
   enemiesToSpawn startedWave = [\<lparr>stype = ''standard'', count = 5, interval = 1.0\<rparr>]"
proof -
  have s: "startNextWave (WaveManager_new Path_new) = Inr (R_WAVE_STARTED, startedWave)"
    by (simp add: startNextWave_def WaveManager_new_def startedWave_def Let_def)
  have a: "activeWave startedWave"
    by (simp add: startedWave_def)
  from startNextWave_rejected_while_active [of startedWave startedWave]
    startNextWave_rejected_while_active [of "WaveManager_new Path_new" startedWave] s a
  show ?thesis by (simp add: startedWave_def)
qed

section \<open>Enemy: construction\<close>

text \<open>
  Claim C8 does not hold for an empty route: the constructor only returns early, and
  \<open>new\<close> still yields the enemy object, with its stats and without a mesh.
\<close>

theorem Enemy_new_empty_route_counterexample:
  "Enemy_new (Some emptyPath) defaultConfig =
     Inr \<lparr>health = 100, speed = 2, evalue = 10, currentWaypointIndex = 0,
          waypoints = [], mesh = None\<rparr>"
  by (simp add: Enemy_new_def Enemy_ctor_def emptyPath_def defaultConfig_def getWaypoints_def
      orDefault_def)

text \<open>
  Claim C8, amended.  With a missing path object the construction throws and no enemy
  exists.  With an empty route the enemy object is created all the same: it has its
  stats and route index 0, but no mesh and therefore no position, and it already counts
  as having reached the end.  With a non-empty route the enemy is created at the first
  waypoint.
\<close>

theorem Enemy_new_construction:
  "Enemy_new None config = Inl TypeError \<and>
   (getWaypoints p = [] \<longrightarrow>
      (\<exists>e. Enemy_new (Some p) config = Inr e \<and> mesh e = None \<and>
           currentWaypointIndex e = 0 \<and> waypoints e = [] \<and> hasReachedEnd e \<and>
           health e = orDefault (cfg_health config) 100 \<and>
           speed e = orDefault (cfg_speed config) 2 \<and>
           evalue e = orDefault (cfg_value config) 10)) \<and>
   (getWaypoints p \<noteq> [] \<longrightarrow>
      (\<exists>e m. Enemy_new (Some p) config = Inr e \<and> mesh e = Some m \<and>
           position m = hd (getWaypoints p) \<and> currentWaypointIndex e = 0))"
  by (cases "getWaypoints p")
     (simp_all add: Enemy_new_def Enemy_ctor_def Let_def hasReachedEnd_def)

theorem Enemy_new_construction_witness:
  "Enemy_new None defaultConfig = Inl TypeError \<and>
   getWaypoints emptyPath = [] \<and>
   (\<exists>e. Enemy_new (Some emptyPath) defaultConfig = Inr e \<and> mesh e = None \<and> hasReachedEnd e) \<and>
   getWaypoints Path_new \<noteq> [] \<and>
   (\<exists>e m. Enemy_new (Some Path_new) defaultConfig = Inr e \<and> mesh e = Some m \<and>
      position m = Vector3 (-15) 0.1 0)"
proof -
  have e: "getWaypoints emptyPath = []"
    by (simp add: getWaypoints_def emptyPath_def)
  have n: "getWaypoints Path_new \<noteq> []" and h: "hd (getWaypoints Path_new) = Vector3 (-15) 0.1 0"
    by (simp_all add: getWaypoints_def Path_new_def)
  from Enemy_new_construction [of defaultConfig emptyPath] e
    Enemy_new_construction [of defaultConfig Path_new] n h
  show ?thesis by auto
qed

section \<open>Tower: cooldown and targeting\<close>

lemma findTarget_cooldown:
  "findTarget h t es = Inr t' \<Longrightarrow> fireCooldown t' = fireCooldown t \<and> fireRate t' = fireRate t"
  by (auto simp add: findTarget_def split: sum.splits option.splits if_splits)

lemma attack_cases:
  "attack h t tg ps = (t', ps') \<Longrightarrow>
     (ps' = ps \<and> fireCooldown t' = fireCooldown t) \<or>
     (ps' \<noteq> ps \<and> fireCooldown t' = 1 / fireRate t)"
  by (auto simp add: attack_def Let_def split: option.splits if_splits)

text \<open>
  Claim C9, amended.  \<open>Tower.update\<close> decrements the cooldown by \<open>dt\<close> only when the
  cooldown is strictly positive before the call; a cooldown that is already zero or
  negative is left as it is.  One decrement can take it below zero, there is no floor.
  This does not depend on the tower having a target.  The value \<open>c\<close> so obtained is
  the cooldown after the update when no projectile was fired; a projectile is fired only
  when \<open>c \<le> 0\<close>, and the cooldown is then reset to \<open>1 / fireRate\<close> (stated for a
  fire rate other than zero).
\<close>

theorem Tower_update_cooldown:
  "Tower_update dt es h t ps = Inr (t', ps') \<Longrightarrow>
   (let c = (if fireCooldown t > 0 then fireCooldown t - dt else fireCooldown t)
    in (ps' = ps \<longrightarrow> fireCooldown t' = c) \<and>
       (ps' \<noteq> ps \<longrightarrow> c \<le> 0 \<and> (fireRate t \<noteq> 0 \<longrightarrow> fireCooldown t' = 1 / fireRate t)))"
proof -
  assume u: "Tower_update dt es h t ps = Inr (t', ps')"
  define t1 where "t1 = (if fireCooldown t > 0 then t\<lparr>fireCooldown := fireCooldown t - dt\<rparr> else t)"
  define c where "c = (if fireCooldown t > 0 then fireCooldown t - dt else fireCooldown t)"
  have c1: "fireCooldown t1 = c" and r1: "fireRate t1 = fireRate t"
    by (simp_all add: t1_def c_def)
  have unf: "Tower_update dt es h t ps =
     (case targetInvalid h t1 of
        Inl e \<Rightarrow> Inl e
      | Inr invalid \<Rightarrow>
          (case (if invalid then findTarget h t1 es else Inr t1) of
             Inl e \<Rightarrow> Inl e
           | Inr t2 \<Rightarrow>
               if currentTarget t2 \<noteq> None \<and> fireCooldown t2 \<le> 0
               then Inr (attack h t2 (currentTarget t2) ps)
               else Inr (t2, ps)))"
    by (simp only: Tower_update_def Let_def t1_def)
  from u obtain invalid where ti: "targetInvalid h t1 = Inr invalid"
    by (cases "targetInvalid h t1") (simp_all add: unf)
  from u ti obtain t2 where
    t2: "(if invalid then findTarget h t1 es else Inr t1) = Inr t2"
    by (cases "if invalid then findTarget h t1 es else Inr t1") (simp_all add: unf)
  from u ti t2 have
    res: "(if currentTarget t2 \<noteq> None \<and> fireCooldown t2 \<le> 0
           then attack h t2 (currentTarget t2) ps else (t2, ps)) = (t', ps')"
    by (auto simp add: unf split: if_splits)
  from t2 have c2: "fireCooldown t2 = c" and r2: "fireRate t2 = fireRate t"
    using findTarget_cooldown [of h t1 es t2] c1 r1 by (auto split: if_splits)
  show ?thesis
  proof (cases "currentTarget t2 \<noteq> None \<and> fireCooldown t2 \<le> 0")
    case True
    with res have "attack h t2 (currentTarget t2) ps = (t', ps')" by (auto split: if_splits)
    from attack_cases [OF this] True c2 r2 show ?thesis
      by (auto simp add: Let_def c_def)
  next
    case False
    with res have "t' = t2" "ps' = ps" by (auto split: if_splits)
    with c2 show ?thesis by (simp add: Let_def c_def)
  qed
qed

text \<open>
  Claim C9 as stated fails on a tower that was just built: its cooldown is 0, and an
  update with \<open>dt = 1\<close> and no enemy leaves the tower unchanged instead of taking the
  cooldown to \<open>-1\<close>.
\<close>

theorem Tower_update_idle_counterexample:
  "fireCooldown freshTower = 0 \<and>
   Tower_update 1 [] (\<lambda>_. walker) freshTower [] = Inr (freshTower, [])"
  by (simp add: freshTower_def Tower_new_def mainTowerConfig_def orDefault_def Tower_update_def
      targetInvalid_def findTarget_def Let_def)

text \<open>
  A tower with 0.1 seconds of cooldown left, ticked by 0.2 seconds: without an enemy the
  cooldown goes to \<open>-0.1\<close>; with two enemies in range it fires at the first one and
  the cooldown is reset.
\<close>

theorem Tower_update_cooldown_witness:
  "Tower_update 0.2 [] (\<lambda>_. walker) coolingTower [] = Inr (coolingTower\<lparr>fireCooldown := - 0.1\<rparr>, []) \<and>
   fireCooldown (coolingTower\<lparr>fireCooldown := - 0.1\<rparr>) = fireCooldown coolingTower - 0.2 \<and>
   Tower_update 0.2 [0, 1] twoEnemies coolingTower [] =
     Inr (coolingTower\<lparr>currentTarget := Some 0, fireCooldown := 5 / 6\<rparr>,
          [Projectile_new (Vector3 0 1.6 0) 0 20 0.1 30]) \<and>
   1 / fireRate coolingTower = 5 / 6"
proof -
  have e: "Tower_update 0.2 [] (\<lambda>_. walker) coolingTower [] = Inr (coolingTower\<lparr>fireCooldown := - 0.1\<rparr>, [])"
    by (simp add: coolingTower_def freshTower_def Tower_new_def mainTowerConfig_def orDefault_def
        Tower_update_def targetInvalid_def findTarget_def Let_def)
  have f: "Tower_update 0.2 [0, 1] twoEnemies coolingTower [] =
     Inr (coolingTower\<lparr>currentTarget := Some 0, fireCooldown := 5 / 6\<rparr>,
          [Projectile_new (Vector3 0 1.6 0) 0 20 0.1 30])"
    by (simp add: coolingTower_def freshTower_def Tower_new_def mainTowerConfig_def orDefault_def
        Tower_update_def targetInvalid_def findTarget_def Let_def twoEnemies_def enemyAt_def
        isDead_def distanceToSquared_def attack_def)
  have r: "fireRate coolingTower \<noteq> 0" "1 / fireRate coolingTower = 5 / 6"
    by (simp_all add: coolingTower_def freshTower_def Tower_new_def mainTowerConfig_def orDefault_def)
  from Tower_update_cooldown [OF e] Tower_update_cooldown [OF f] e f r show ?thesis
    by (simp add: coolingTower_def)
qed

lemma scanTarget_find:
  "\<forall>r\<in>set es. mesh (h r) \<noteq> None \<Longrightarrow>
   scanTarget h t es = Inr (List.find (\<lambda>r. \<not> isDead (h r) \<and> inRange h t r) es)"
  by (induction es) (auto simp add: inRange_def split: option.splits)

text \<open>
  Claim C6.  For a collection of enemies that all have a mesh, \<open>findTarget\<close> sets the
  target to the first enemy, in the order of the collection, that is not dead and whose
  squared distance to the tower is at most \<open>range\<^sup>2\<close>; later enemies are not
  considered, however near they are.  When there is no such enemy the target becomes
  none.  The result is a function of the collection and its order.
\<close>

theorem findTarget_first_in_range:
  assumes "\<forall>r\<in>set es. mesh (h r) \<noteq> None"
  shows "findTarget h t es =
           Inr (t\<lparr>currentTarget := List.find (\<lambda>r. \<not> isDead (h r) \<and> inRange h t r) es\<rparr>)"
proof (cases "List.find (\<lambda>r. \<not> isDead (h r) \<and> inRange h t r) es")
  case None
  with scanTarget_find [OF assms, of t] show ?thesis
    by (simp add: findTarget_def)
next
  case (Some r)
  then have "\<not> isDead (h r) \<and> inRange h t r"
    by (auto simp add: find_Some_iff)
  with Some scanTarget_find [OF assms, of t] show ?thesis
    by (auto simp add: findTarget_def inRange_def split: option.splits)
qed

theorem findTarget_first_in_range_witness:
  "mesh (twoEnemies 0) \<noteq> None \<and> mesh (twoEnemies 1) \<noteq> None \<and>
   findTarget twoEnemies freshTower [0, 1] = Inr (freshTower\<lparr>currentTarget := Some 0\<rparr>) \<and>
   findTarget twoEnemies freshTower [1, 0] = Inr (freshTower\<lparr>currentTarget := Some 1\<rparr>)"
proof -
  have m: "\<forall>r\<in>set [0, 1]. mesh (twoEnemies r) \<noteq> None"
    and m': "\<forall>r\<in>set [1, 0]. mesh (twoEnemies r) \<noteq> None"
    by (simp_all add: twoEnemies_def enemyAt_def)
  have a: "\<not> isDead (twoEnemies 0) \<and> inRange twoEnemies freshTower 0"
    and b: "\<not> isDead (twoEnemies 1) \<and> inRange twoEnemies freshTower 1"
    by (simp_all add: twoEnemies_def enemyAt_def isDead_def inRange_def freshTower_def
        Tower_new_def mainTowerConfig_def orDefault_def distanceToSquared_def)
  from findTarget_first_in_range [OF m, of freshTower]
    findTarget_first_in_range [OF m', of freshTower] m a b
  show ?thesis by simp
qed

section \<open>WaveManager: completion of a wave\<close>

lemma checkWaveComplete_signal:
  "checkWaveComplete wm st = (sig, wm', st') \<Longrightarrow>
     st' = st \<and> enemiesToSpawn wm' = enemiesToSpawn wm \<and>
     (sig = Some R_WAVE_COMPLETE \<longleftrightarrow> enemiesToSpawn wm = [] \<and> enemies st = []) \<and>
     (sig = Some R_WAVE_COMPLETE \<longrightarrow> \<not> activeWave wm') \<and>
     (sig \<noteq> Some R_WAVE_COMPLETE \<longrightarrow> sig = None \<and> wm' = wm)"
  by (auto simp add: checkWaveComplete_def split: if_splits)

lemma pushEnemy_nonempty: "enemies (pushEnemy e st) \<noteq> []"
  by (simp add: pushEnemy_def)

text \<open>
  Claim C3, amended.  During an active wave \<open>update\<close> signals \<open>WAVE_COMPLETE\<close> if and only
  if this call did not drop a group of unknown enemy type and, after spawn handling, the
  spawn queue and the live-enemy collection are both empty.  When it signals, \<open>activeWave\<close>
  is false afterwards; otherwise there is no signal and the wave stays active.  When no
  wave is active \<open>update\<close> returns no signal and changes nothing, whatever the
  collections hold.
\<close>

theorem WaveManager_update_complete:
  "WaveManager_update dt wm st = (sig, wm', st') \<Longrightarrow>
   (activeWave wm \<longrightarrow>
      (sig = Some R_WAVE_COMPLETE \<longleftrightarrow>
         \<not> dropsUnknownGroup dt wm \<and> enemiesToSpawn wm' = [] \<and> enemies st' = []) \<and>
      (sig = Some R_WAVE_COMPLETE \<longrightarrow> \<not> activeWave wm') \<and>
      (sig \<noteq> Some R_WAVE_COMPLETE \<longrightarrow> sig = None \<and> activeWave wm')) \<and>
   (\<not> activeWave wm \<longrightarrow> sig = None \<and> wm' = wm \<and> st' = st)"
proof (cases "activeWave wm")
  case False
  assume "WaveManager_update dt wm st = (sig, wm', st')"
  with False show ?thesis by (auto simp add: WaveManager_update_def)
next
  case act: True
  assume u: "WaveManager_update dt wm st = (sig, wm', st')"
  define wm1 where "wm1 = wm\<lparr>spawnTimer := spawnTimer wm - dt\<rparr>"
  have a1: "activeWave wm1" and q1: "enemiesToSpawn wm1 = enemiesToSpawn wm"
    and s1: "spawnTimer wm1 = spawnTimer wm - dt"
    using act by (simp_all add: wm1_def)
  show ?thesis
  proof (cases "spawnTimer wm - dt \<le> 0")
    case False
    with u act have c: "checkWaveComplete wm1 st = (sig, wm', st')"
      by (simp add: WaveManager_update_def Let_def wm1_def)
    from checkWaveComplete_signal [OF c] False a1 q1 act show ?thesis
      by (auto simp add: dropsUnknownGroup_def)
  next
    case due: True
    show ?thesis
    proof (cases "enemiesToSpawn wm")
      case Nil
      with u act due have c: "checkWaveComplete wm1 st = (sig, wm', st')"
        by (simp add: WaveManager_update_def Let_def wm1_def)
      from checkWaveComplete_signal [OF c] Nil a1 q1 act show ?thesis
        by (auto simp add: dropsUnknownGroup_def)
    next
      case (Cons g rest)
      show ?thesis
      proof (cases "ENEMY_CONFIGS (stype g)")
        case None
        with u act due Cons have "sig = None" "wm' = wm1\<lparr>enemiesToSpawn := rest\<rparr>" "st' = st"
          by (simp_all add: WaveManager_update_def Let_def wm1_def)
        with None Cons due a1 act show ?thesis
          by (simp add: dropsUnknownGroup_def)
      next
        case (Some cfg)
        define st1 where "st1 = pushEnemy (Enemy_ctor (wpath wm1) cfg) st"
        from u act due Cons Some obtain wm3 where
          c: "checkWaveComplete wm3 st1 = (sig, wm', st')" and a3: "activeWave wm3"
          by (simp add: WaveManager_update_def Let_def wm1_def st1_def split: list.splits if_splits)
        have ne: "enemies st1 \<noteq> []" by (simp add: st1_def pushEnemy_nonempty)
        from checkWaveComplete_signal [OF c] ne a3 act Some Cons show ?thesis
          by (auto simp add: dropsUnknownGroup_def)
      qed
    qed
  qed
qed

text \<open>
  Claim C3 as stated fails when the group at the front of the queue has an unknown type:
  \<open>update\<close> removes the group and returns at once.  Here the queue and the live
  collection are both empty after the call, yet there is no signal and the wave is still
  active (the next call will signal).
\<close>

theorem WaveManager_update_unknown_type_counterexample:
  "startNextWave bossManager = Inr (R_WAVE_STARTED, bossWave) \<and>
   activeWave bossWave \<and>
   WaveManager_update 0.1 bossWave emptyStore =
     (None, bossWave\<lparr>spawnTimer := - 0.1, enemiesToSpawn := []\<rparr>, emptyStore) \<and>
   enemies emptyStore = []"
  by (simp add: startNextWave_def bossManager_def bossWave_def WaveManager_new_def Let_def
      WaveManager_update_def ENEMY_CONFIGS_def emptyStore_def)

theorem WaveManager_update_complete_witness:
  "activeWave drainedWave \<and>
   WaveManager_update 0.1 drainedWave emptyStore =
     (Some R_WAVE_COMPLETE, drainedWave\<lparr>spawnTimer := 0.4, activeWave := False\<rparr>, emptyStore) \<and>
   \<not> dropsUnknownGroup 0.1 drainedWave \<and>
   activeWave lastSpawn \<and>
   fst (WaveManager_update 0.1 lastSpawn emptyStore) = None \<and>
   enemies (snd (snd (WaveManager_update 0.1 lastSpawn emptyStore))) = [0] \<and>
   \<not> activeWave (WaveManager_new Path_new) \<and>
   WaveManager_update 0.1 (WaveManager_new Path_new) emptyStore = (None, WaveManager_new Path_new, emptyStore)"
proof -
  have a: "activeWave drainedWave" and b: "activeWave lastSpawn"
    and c: "\<not> activeWave (WaveManager_new Path_new)"
    by (simp_all add: drainedWave_def lastSpawn_def startedWave_def WaveManager_new_def)
  have d: "WaveManager_update 0.1 drainedWave emptyStore =
     (Some R_WAVE_COMPLETE, drainedWave\<lparr>spawnTimer := 0.4, activeWave := False\<rparr>, emptyStore)"
    by (simp add: WaveManager_update_def drainedWave_def startedWave_def WaveManager_new_def
        Let_def checkWaveComplete_def emptyStore_def)
  obtain sg wm' st' where e: "WaveManager_update 0.1 lastSpawn emptyStore = (sg, wm', st')"
    by (cases "WaveManager_update 0.1 lastSpawn emptyStore") auto
  have f: "enemies (snd (snd (WaveManager_update 0.1 lastSpawn emptyStore))) = [0]"
    by (simp add: WaveManager_update_def lastSpawn_def startedWave_def WaveManager_new_def
        Let_def checkWaveComplete_def emptyStore_def ENEMY_CONFIGS_def pushEnemy_def)
  obtain wm0 st0 where g: "WaveManager_update 0.1 (WaveManager_new Path_new) emptyStore = (None, wm0, st0)"
    using c by (simp add: WaveManager_update_def)
  from WaveManager_update_complete [OF d] WaveManager_update_complete [OF e]
    WaveManager_update_complete [OF g] a b c d e f g
  show ?thesis by auto
qed

section \<open>The frame: reaping enemies and the end of the game\<close>

lemma vlength_along_x:
  "vlength (subVectors (Vector3 a y z) (Vector3 b y z)) = \<bar>a - b\<bar>"
  by (simp add: vlength_def subVectors_def)

lemma runner_arrives: "Enemy_update 0.1 runner = arrived"
  by (simp add: Enemy_update_def runner_def arrived_def hasReachedEnd_def Path_new_def Let_def
      vlength_along_x)

lemma deadRunner_arrives:
  "Enemy_update 0.1 deadRunner = arrived\<lparr>health := -20\<rparr>"
  by (simp add: Enemy_update_def deadRunner_def runner_def arrived_def hasReachedEnd_def
      Path_new_def Let_def vlength_along_x)

lemma animate_terminal:
  "gameStatus g = GAME_OVER \<or> gameStatus g = GAME_WON \<Longrightarrow> animate dt g = Inr g"
  by (simp add: animate_def)

lemma startWaveClick_terminal:
  "gameStatus g = GAME_OVER \<or> gameStatus g = GAME_WON \<Longrightarrow> startWaveClick g = Inr g"
  by (auto simp add: startWaveClick_def)

text \<open>
  The body of the enemy loop tests deadness first: on an enemy that, after its own update,
  is both dead and at the end of the route, it credits the gold, disposes and removes the
  enemy, leaves lives and status alone and does not return.
\<close>

lemma enemyStep_dead_before_arrived:
  assumes "i < length (enemies (store g))"
    and "r = enemies (store g) ! i"
    and "e = Enemy_update dt (heap (store g) r)"
    and "isDead e" and "hasReachedEnd e"
  shows "\<exists>g'. enemyStep dt i g = (g', False) \<and>
           playerGold g' = playerGold g + evalue e \<and>
           playerLives g' = playerLives g \<and>
           gameStatus g' = gameStatus g \<and>
           enemies (store g') = take i (enemies (store g)) @ drop (Suc i) (enemies (store g)) \<and>
           mesh (heap (store g') r) = None"
  using assms by (simp add: enemyStep_def Let_def spliceEnemy_def Enemy_dispose_def)

lemma enemyStep_deadRunner:
  "isDead (Enemy_update 0.1 deadRunner) \<and> hasReachedEnd (Enemy_update 0.1 deadRunner) \<and>
   (\<exists>g'. enemyStep 0.1 0 deadRunnerGame = (g', False) \<and> playerGold g' = 110 \<and>
      playerLives g' = 1 \<and> gameStatus g' = WAVE_ACTIVE \<and> enemies (store g') = [] \<and>
      mesh (heap (store g') 0) = None)"
proof -
  have a: "0 < length (enemies (store deadRunnerGame))"
    and b: "0 = enemies (store deadRunnerGame) ! 0"
    and c: "heap (store deadRunnerGame) 0 = deadRunner"
    and k: "playerGold deadRunnerGame = 100" "playerLives deadRunnerGame = 1"
      "gameStatus deadRunnerGame = WAVE_ACTIVE" "enemies (store deadRunnerGame) = [0]"
    by (simp_all add: deadRunnerGame_def lastLifeGame_def)
  have d: "isDead (Enemy_update 0.1 deadRunner)" and e: "hasReachedEnd (Enemy_update 0.1 deadRunner)"
    and v: "evalue (Enemy_update 0.1 deadRunner) = 10"
    by (simp_all add: deadRunner_arrives isDead_def hasReachedEnd_def arrived_def runner_def Path_new_def)
  have f: "Enemy_update 0.1 deadRunner = Enemy_update 0.1 (heap (store deadRunnerGame) 0)"
    by (simp add: c)
  from enemyStep_dead_before_arrived [OF a b f d e] d e
  show ?thesis
    by (simp add: k v)
qed

lemma arrived_state: "\<not> isDead arrived" "hasReachedEnd arrived"
  by (simp_all add: isDead_def hasReachedEnd_def arrived_def runner_def Path_new_def)

lemma animate_enemies_only:
  assumes "gameStatus g \<noteq> GAME_OVER" "gameStatus g \<noteq> GAME_WON"
    and "WaveManager_update dt (waveManager g) (store g) = (None, wm, store g)"
    and "towers g = []" "projectiles g = []"
  shows "animate dt g = Inr (updateEnemies dt (length (enemies (store g))) (g\<lparr>waveManager := wm\<rparr>))"
proof -
  have eq: "g\<lparr>waveManager := wm, towers := [], projectiles := []\<rparr> = g\<lparr>waveManager := wm\<rparr>"
    using assms(4,5) by (cases g) simp
  from assms show ?thesis
    by (simp add: animate_def Let_def eq)
qed

lemma enemyStep_lastLife:
  "enemyStep 0.1 0 lastLifeTicked = (gameOverGame, True)"
proof -
  have e: "enemies (store lastLifeTicked) ! 0 = 0" and h: "heap (store lastLifeTicked) 0 = runner"
    and l: "playerLives lastLifeTicked = 1"
    by (simp_all add: lastLifeTicked_def lastLifeGame_def)
  have "enemyStep 0.1 0 lastLifeTicked =
          (lastLifeTicked\<lparr>playerLives := 0, gameStatus := GAME_OVER,
             store := (store lastLifeTicked)\<lparr>heap := (heap (store lastLifeTicked))(0 := arrived)\<rparr>\<rparr>, True)"
    by (simp add: enemyStep_def Let_def e h l runner_arrives arrived_state)
  also have "lastLifeTicked\<lparr>playerLives := 0, gameStatus := GAME_OVER,
             store := (store lastLifeTicked)\<lparr>heap := (heap (store lastLifeTicked))(0 := arrived)\<rparr>\<rparr> = gameOverGame"
    by (simp add: lastLifeTicked_def lastLifeGame_def gameOverGame_def)
  finally show ?thesis .
qed

text \<open>
  The game-over branch of the loop body in general: the enemy that arrived is updated but
  stays in the collection, undisposed, and the body returns.
\<close>

lemma enemyStep_game_over:
  assumes "r = enemies (store g) ! i"
    and "e = Enemy_update dt (heap (store g) r)"
    and "\<not> isDead e" and "hasReachedEnd e" and "playerLives g \<le> 1"
  shows "enemyStep dt i g =
           (g\<lparr>playerLives := 0, gameStatus := GAME_OVER,
              store := (store g)\<lparr>heap := (heap (store g))(r := e)\<rparr>\<rparr>, True)"
  using assms by (simp add: enemyStep_def Let_def)

text \<open>
  Claim C2.  \<open>GAME_OVER\<close> and \<open>GAME_WON\<close> are absorbing (see \<open>animate_terminal\<close>), and
  on the tick in which an arrival takes the lives to 0 the lives are clamped, the status
  becomes \<open>GAME_OVER\<close> and the rest of the loop is skipped.  The claim also says that
  the arriving enemy is destroyed on that tick; the loop body sets \<open>removeEnemy\<close> for it
  but returns before the removal is carried out.  Evaluated on the last-life game: after
  the tick the status is \<open>GAME_OVER\<close> with 0 lives, and the enemy that arrived is still in
  the live collection with its mesh; later ticks change nothing.
\<close>

theorem animate_game_over_keeps_enemy:
  "animate 0.1 lastLifeGame = Inr gameOverGame \<and>
   gameStatus gameOverGame = GAME_OVER \<and> playerLives gameOverGame = 0 \<and>
   enemies (store gameOverGame) = [0] \<and>
   mesh (heap (store gameOverGame) 0) = Some \<lparr>position = Vector3 15 0.1 15, radius = 0.5\<rparr> \<and>
   animate 0.1 gameOverGame = Inr gameOverGame"
proof -
  have w: "WaveManager_update 0.1 (waveManager lastLifeGame) (store lastLifeGame)
        = (None, drainedWave\<lparr>spawnTimer := 0.4\<rparr>, store lastLifeGame)"
    by (simp add: WaveManager_update_def drainedWave_def startedWave_def WaveManager_new_def
        Let_def checkWaveComplete_def lastLifeGame_def)
  have g: "gameStatus lastLifeGame \<noteq> GAME_OVER" "gameStatus lastLifeGame \<noteq> GAME_WON"
    "towers lastLifeGame = []" "projectiles lastLifeGame = []"
    and n: "length (enemies (store lastLifeGame)) = Suc 0"
    by (simp_all add: lastLifeGame_def)
  have "animate 0.1 lastLifeGame = Inr (updateEnemies 0.1 (Suc 0) lastLifeTicked)"
    unfolding lastLifeTicked_def n [symmetric]
    by (rule animate_enemies_only) (simp_all add: g w)
  then have a: "animate 0.1 lastLifeGame = Inr gameOverGame"
    by (simp add: enemyStep_lastLife)
  have b: "gameStatus gameOverGame = GAME_OVER"
    by (simp add: gameOverGame_def)
  from a b show ?thesis
    by (simp add: animate_def) (simp add: gameOverGame_def lastLifeGame_def arrived_def runner_def)
qed

section \<open>Projectiles whose target is gone\<close>

lemma Projectile_update_dead_target:
  "targetEnemy p = None \<or> (\<exists>r. targetEnemy p = Some r \<and> isDead (h r)) \<Longrightarrow>
   Projectile_update dt h p = Inr (INVALID_TARGET, p, h)"
  by (auto simp add: Projectile_update_def)

lemma Projectile_update_disposed_target:
  "targetEnemy p = Some r \<Longrightarrow> \<not> isDead (h r) \<Longrightarrow> mesh (h r) = None \<Longrightarrow>
   Projectile_update dt h p = Inl TypeError"
  by (simp add: Projectile_update_def)

lemma vlength_chase: "vlength (Vector3 (12 / 5) (- 1) 0) = 13 / 5"
  unfolding vlength_def by (rule real_sqrt_unique) (simp_all add: power2_eq_square)

lemma chaser_moves:
  "Projectile_update 0.1 chaseHeap chaser = Inr (MOVING, strayProjectile, chaseHeap)"
  by (simp add: Projectile_update_def chaser_def chaseHeap_def runner_def isDead_def Let_def
      subVectors_def vlength_chase orElse_def normalize_def divideScalar_def addScaledVector_def
      strayProjectile_def)

lemma chaseTower_drops_target:
  "Tower_update 0.1 [0] chaseHeap chaseTower ps = Inr (idleTower, ps)"
  by (simp add: Tower_update_def chaseTower_def idleTower_def Tower_new_def mainTowerConfig_def
      orDefault_def targetInvalid_def findTarget_def chaseHeap_def runner_def isDead_def
      distanceToSquared_def Let_def)

lemma wave_waits:
  "enemies st \<noteq> [] \<Longrightarrow>
   WaveManager_update 0.1 drainedWave st = (None, drainedWave\<lparr>spawnTimer := 0.4\<rparr>, st)"
  by (simp add: WaveManager_update_def drainedWave_def startedWave_def WaveManager_new_def
      Let_def checkWaveComplete_def)

lemma chase_tick1: "animate 0.1 chaseGame = Inr chaseGameTicked"
proof -
  have h: "chaseHeap 0 = runner" by (simp add: chaseHeap_def)
  have d: "chaseHeap(0 := Enemy_dispose arrived) = disposedHeap"
    by (simp add: chaseHeap_def disposedHeap_def)
  show ?thesis
    by (simp add: animate_def chaseGame_def wave_waits Let_def chaseTower_drops_target chaser_moves
        enemyStep_def h d runner_arrives arrived_state spliceEnemy_def chaseGameTicked_def)
qed

lemma stray_throws:
  "Projectile_update 0.1 disposedHeap strayProjectile = Inl TypeError"
  by (simp add: Projectile_update_def strayProjectile_def chaser_def disposedHeap_def
      Enemy_dispose_def arrived_def runner_def isDead_def)

lemma idleTower_idles:
  "Tower_update 0.1 [] disposedHeap idleTower ps = Inr (idleTower\<lparr>fireCooldown := 0.4\<rparr>, ps)"
  by (simp add: Tower_update_def chaseTower_def idleTower_def Tower_new_def mainTowerConfig_def
      orDefault_def targetInvalid_def findTarget_def Let_def)

lemma wave_completes:
  "enemies st = [] \<Longrightarrow>
   WaveManager_update 0.1 (drainedWave\<lparr>spawnTimer := x\<rparr>) st =
     (Some R_WAVE_COMPLETE, drainedWave\<lparr>spawnTimer := x - 0.1, activeWave := False\<rparr>, st)"
  by (simp add: WaveManager_update_def drainedWave_def startedWave_def WaveManager_new_def
      Let_def checkWaveComplete_def)

lemma chase_tick2: "animate 0.1 chaseGameTicked = Inl TypeError"
  by (simp add: animate_def chaseGameTicked_def wave_completes Let_def idleTower_idles stray_throws)

text \<open>
  Claim C1.  A projectile whose target was destroyed before its update runs should get
  \<open>INVALID_TARGET\<close> from that update, with no damage and no error.  This holds when the
  target died (\<open>Projectile_update_dead_target\<close>).  It fails when the target was removed
  for reaching the end of the route alive: the projectile still holds the reference, the
  enemy is not dead, and reading the position of its disposed mesh throws.  Evaluated on
  the chase game: the first tick moves the projectile, lets the enemy arrive and disposes
  it; in the second tick the projectile's update, and with it the frame, ends in a
  \<open>TypeError\<close>.
\<close>

theorem Projectile_update_target_arrived:
  "animate 0.1 chaseGame = Inr chaseGameTicked \<and>
   projectiles chaseGameTicked = [strayProjectile] \<and>
   targetEnemy strayProjectile = Some 0 \<and>
   enemies (store chaseGameTicked) = [] \<and>
   heap (store chaseGameTicked) = disposedHeap \<and>
   \<not> isDead (disposedHeap 0) \<and>
   mesh (disposedHeap 0) = None \<and>
   Projectile_update 0.1 disposedHeap strayProjectile = Inl TypeError \<and>
   animate 0.1 chaseGameTicked = Inl TypeError"
proof -
  have "projectiles chaseGameTicked = [strayProjectile]"
    and "enemies (store chaseGameTicked) = []"
    and "heap (store chaseGameTicked) = disposedHeap"
    by (simp_all add: chaseGameTicked_def)
  moreover have "targetEnemy strayProjectile = Some 0"
    by (simp add: strayProjectile_def chaser_def)
  moreover have "\<not> isDead (disposedHeap 0)" and "mesh (disposedHeap 0) = None"
    by (simp_all add: disposedHeap_def Enemy_dispose_def arrived_def runner_def isDead_def)
  ultimately show ?thesis
    by (simp add: chase_tick1 chase_tick2 stray_throws)
qed

section \<open>The live collection between frames\<close>

text \<open>
  What \<open>findTarget\<close> does on any collection: an enemy without a mesh that is reached
  by the scan makes it throw.
\<close>

lemma findTarget_scan_general:
  "findTarget h t es =
     (case List.find (\<lambda>r. \<not> isDead (h r) \<and> (mesh (h r) = None \<or> inRange h t r)) es of
        None \<Rightarrow> Inr (t\<lparr>currentTarget := None\<rparr>)
      | Some r \<Rightarrow> if mesh (h r) = None then Inl TypeError else Inr (t\<lparr>currentTarget := Some r\<rparr>))"
proof -
  have s: "scanTarget h t es =
     (case List.find (\<lambda>r. \<not> isDead (h r) \<and> (mesh (h r) = None \<or> inRange h t r)) es of
        None \<Rightarrow> Inr None
      | Some r \<Rightarrow> if mesh (h r) = None then Inl TypeError else Inr (Some r))"
    by (induction es) (auto simp add: inRange_def split: option.splits)
  show ?thesis
  proof (cases "List.find (\<lambda>r. \<not> isDead (h r) \<and> (mesh (h r) = None \<or> inRange h t r)) es")
    case None
    then show ?thesis by (simp add: findTarget_def s)
  next
    case (Some r)
    then have "\<not> isDead (h r) \<and> (mesh (h r) = None \<or> inRange h t r)"
      by (auto simp add: find_Some_iff)
    with Some show ?thesis
      by (auto simp add: findTarget_def s inRange_def split: option.splits)
  qed
qed

lemma Enemy_ctor_mesh: "getWaypoints p \<noteq> [] \<Longrightarrow> mesh (Enemy_ctor p cfg) \<noteq> None"
  by (cases "getWaypoints p") (simp_all add: Enemy_ctor_def Let_def)

lemma pushEnemy_liveMeshes:
  "liveMeshes st \<Longrightarrow> mesh e \<noteq> None \<Longrightarrow> liveMeshes (pushEnemy e st)"
  by (auto simp add: liveMeshes_def pushEnemy_def less_Suc_eq)

lemma checkWaveComplete_store: "snd (snd (checkWaveComplete wm st)) = st"
  by (simp add: checkWaveComplete_def)

lemma WaveManager_update_liveMeshes:
  assumes "liveMeshes st" "getWaypoints (wpath wm) \<noteq> []"
    and "WaveManager_update dt wm st = (sig, wm', st')"
  shows "liveMeshes st' \<and> wpath wm' = wpath wm"
proof -
  have a: "checkWaveComplete w s = (sig, wm', st') \<Longrightarrow> st' = s \<and> wpath wm' = wpath w" for w s
    by (auto simp add: checkWaveComplete_def split: if_splits)
  from assms show ?thesis
    by (auto simp add: WaveManager_update_def Let_def pushEnemy_liveMeshes Enemy_ctor_mesh
        split: if_splits list.splits option.splits dest!: a)
qed

lemma Projectile_update_mesh:
  "Projectile_update dt h p = Inr (s, p', h') \<Longrightarrow> mesh (h' r) = mesh (h r)"
  by (auto simp add: Projectile_update_def Let_def takeDamage_def
      split: option.splits if_splits)

lemma updateProjectiles_mesh:
  "updateProjectiles dt n (ps, h) = Inr (ps', h') \<Longrightarrow> mesh (h' r) = mesh (h r)"
proof (induction n arbitrary: ps h)
  case 0
  then show ?case by simp
next
  case (Suc n)
  from Suc.prems obtain s p1 h1 where
    u: "Projectile_update dt h (ps ! n) = Inr (s, p1, h1)"
    by (cases "Projectile_update dt h (ps ! n)") auto
  from Suc.prems u obtain ps1 where "updateProjectiles dt n (ps1, h1) = Inr (ps', h')"
    by (auto split: if_splits)
  from Suc.IH [OF this] Projectile_update_mesh [OF u] show ?case by simp
qed

lemma Enemy_update_mesh: "mesh e \<noteq> None \<Longrightarrow> mesh (Enemy_update dt e) \<noteq> None"
  by (auto simp add: Enemy_update_def Let_def)

lemma distinct_splice:
  assumes "distinct es" "i < length es"
  shows "es ! i \<notin> set (take i es @ drop (Suc i) es) \<and> distinct (take i es @ drop (Suc i) es)"
proof -
  have "es = take i es @ es ! i # drop (Suc i) es"
    using assms(2) by (rule id_take_nth_drop)
  then have "distinct (take i es @ es ! i # drop (Suc i) es)"
    using assms(1) by simp
  then show ?thesis by auto
qed

lemma spliceEnemy_liveMeshes:
  assumes "liveMeshes st" "i < length (enemies st)"
  shows "liveMeshes (spliceEnemy i (enemies st ! i) st)"
proof -
  have sub: "x \<in> set (take i (enemies st) @ drop (Suc i) (enemies st)) \<Longrightarrow> x \<in> set (enemies st)" for x
    by (auto dest: in_set_takeD in_set_dropD)
  from assms distinct_splice [of "enemies st" i] show ?thesis
    unfolding liveMeshes_def spliceEnemy_def
    by (auto dest: in_set_takeD in_set_dropD)
qed

lemma liveMeshes_heap:
  "liveMeshes st \<Longrightarrow> (\<And>r. mesh (heap st r) \<noteq> None \<Longrightarrow> mesh (h r) \<noteq> None) \<Longrightarrow>
   liveMeshes (st\<lparr>heap := h\<rparr>)"
  by (auto simp add: liveMeshes_def simp del: not_None_eq)

lemma enemyStep_liveMeshes:
  assumes "liveMeshes (store g)" "i < length (enemies (store g))"
    and "enemyStep dt i g = (g', b)"
  shows "liveMeshes (store g') \<and> i \<le> length (enemies (store g'))"
proof -
  define r where "r = enemies (store g) ! i"
  define st1 where
    "st1 = (store g)\<lparr>heap := (heap (store g))(r := Enemy_update dt (heap (store g) r))\<rparr>"
  have l1: "liveMeshes st1"
    unfolding st1_def using assms(1)
  proof (rule liveMeshes_heap)
    fix x
    assume "mesh (heap (store g) x) \<noteq> None"
    then show "mesh (((heap (store g))(r := Enemy_update dt (heap (store g) r))) x) \<noteq> None"
      using Enemy_update_mesh [of "heap (store g) r" dt] by (cases "x = r") auto
  qed
  have e1: "enemies st1 = enemies (store g)"
    by (simp add: st1_def)
  have l2: "liveMeshes (spliceEnemy i r st1)"
    using spliceEnemy_liveMeshes [OF l1, of i] assms(2) by (simp add: e1 r_def)
  have n2: "i \<le> length (enemies (spliceEnemy i r st1))"
    using assms(2) by (simp add: spliceEnemy_def e1)
  from assms(3) have
    "store g' = st1 \<or> store g' = spliceEnemy i r st1"
    by (auto simp add: enemyStep_def Let_def r_def st1_def split: if_splits)
  with l1 l2 n2 e1 assms(2) show ?thesis by auto
qed

lemma enemyStep_waveManager:
  "enemyStep dt i g = (g', b) \<Longrightarrow> waveManager g' = waveManager g"
  by (auto simp add: enemyStep_def Let_def split: if_splits)

lemma updateEnemies_liveMeshes:
  "liveMeshes (store g) \<Longrightarrow> n \<le> length (enemies (store g)) \<Longrightarrow>
   liveMeshes (store (updateEnemies dt n g)) \<and>
   waveManager (updateEnemies dt n g) = waveManager g"
proof (induction n arbitrary: g)
  case 0
  then show ?case by simp
next
  case (Suc n)
  obtain g' b where s: "enemyStep dt n g = (g', b)"
    by (cases "enemyStep dt n g") auto
  from Suc.prems have "n < length (enemies (store g))" by simp
  from enemyStep_liveMeshes [OF Suc.prems(1) this s]
  have l: "liveMeshes (store g')" and n: "n \<le> length (enemies (store g'))"
    by simp_all
  note w = enemyStep_waveManager [OF s]
  show ?case
  proof (cases b)
    case True
    with s l w show ?thesis by simp
  next
    case False
    with s w Suc.IH [OF l n] show ?thesis by simp
  qed
qed

text \<open>
  Every enemy of the live collection has a mesh: this holds in the initial game and is
  kept by every frame and by the start-wave command, as long as the route is not empty.
  It is the situation in which towers scan the collection.
\<close>

lemma animate_liveMeshes:
  assumes "liveMeshes (store g)" "getWaypoints (wpath (waveManager g)) \<noteq> []"
    and "animate dt g = Inr g'"
  shows "liveMeshes (store g') \<and> wpath (waveManager g') = wpath (waveManager g)"
proof (cases "gameStatus g = GAME_OVER \<or> gameStatus g = GAME_WON")
  case True
  with assms show ?thesis by (simp add: animate_def)
next
  case False
  obtain sg wm st where w: "WaveManager_update dt (waveManager g) (store g) = (sg, wm, st)"
    by (cases "WaveManager_update dt (waveManager g) (store g)") auto
  from WaveManager_update_liveMeshes [OF assms(1,2) w]
  have l: "liveMeshes st" and pw: "wpath wm = wpath (waveManager g)" by simp_all
  from assms(3) False w obtain ts ps ps' h' g1 where
    p: "updateProjectiles dt (length ps) (ps, heap st) = Inr (ps', h')" and
    g': "g' = updateEnemies dt (length (enemies st)) g1" and
    s1: "store g1 = st\<lparr>heap := h'\<rparr>" and w1: "waveManager g1 = wm"
    by (auto simp add: animate_def Let_def split: sum.splits prod.splits)
  have "liveMeshes (st\<lparr>heap := h'\<rparr>)"
    using l by (rule liveMeshes_heap) (simp add: updateProjectiles_mesh [OF p])
  with s1 have "liveMeshes (store g1)" by simp
  moreover have "length (enemies st) \<le> length (enemies (store g1))" by (simp add: s1)
  ultimately show ?thesis
    unfolding g' using updateEnemies_liveMeshes [of g1 "length (enemies st)" dt] w1 pw
    by simp
qed

lemma startWaveClick_liveMeshes:
  "startWaveClick g = Inr g' \<Longrightarrow>
   store g' = store g \<and> wpath (waveManager g') = wpath (waveManager g)"
  by (auto simp add: startWaveClick_def startNextWave_def Let_def split: if_splits sum.splits)

lemma initialGame_liveMeshes:
  "liveMeshes (store initialGame) \<and> getWaypoints (wpath (waveManager initialGame)) \<noteq> []"
  by (simp add: initialGame_def liveMeshes_def WaveManager_new_def getWaypoints_def Path_new_def)

lemma liveMeshes_scan:
  "liveMeshes st \<Longrightarrow> \<forall>r\<in>set (enemies st). mesh (heap st r) \<noteq> None"
  by (simp add: liveMeshes_def)

section \<open>The reap loop: a dead enemy that has arrived\<close>

text \<open>
  What the remaining iterations of the enemy loop can still change: the collection only
  shrinks, and the enemy objects outside the indices still to be visited are not touched.
\<close>

lemma enemyStep_enemies:
  "enemyStep dt i g = (g', b) \<Longrightarrow>
   enemies (store g') = enemies (store g) \<or>
   enemies (store g') = take i (enemies (store g)) @ drop (Suc i) (enemies (store g))"
  by (auto simp add: enemyStep_def Let_def spliceEnemy_def split: if_splits)

lemma enemyStep_heap_other:
  "enemyStep dt i g = (g', b) \<Longrightarrow> x \<noteq> enemies (store g) ! i \<Longrightarrow>
   heap (store g') x = heap (store g) x"
  by (auto simp add: enemyStep_def Let_def spliceEnemy_def split: if_splits)

lemma updateEnemies_untouched:
  "n \<le> length (enemies (store g)) \<Longrightarrow> x \<notin> set (take n (enemies (store g))) \<Longrightarrow>
   heap (store (updateEnemies dt n g)) x = heap (store g) x"
proof (induction n arbitrary: g)
  case 0
  then show ?case by simp
next
  case (Suc n)
  obtain g' b where s: "enemyStep dt n g = (g', b)"
    by (cases "enemyStep dt n g") auto
  from Suc.prems have lt: "n < length (enemies (store g))" by simp
  from Suc.prems(2) lt have nx: "x \<noteq> enemies (store g) ! n"
    and nt: "x \<notin> set (take n (enemies (store g)))"
    by (auto simp add: take_Suc_conv_app_nth)
  have h: "heap (store g') x = heap (store g) x"
    using enemyStep_heap_other [OF s nx] .
  from enemyStep_enemies [OF s] lt
  have t: "take n (enemies (store g')) = take n (enemies (store g))"
    and l: "n \<le> length (enemies (store g'))"
    by auto
  show ?case
  proof (cases b)
    case True
    with s h show ?thesis by simp
  next
    case False
    from Suc.IH [OF l] nt t have "heap (store (updateEnemies dt n g')) x = heap (store g') x"
      by simp
    with False s h show ?thesis by simp
  qed
qed

lemma updateEnemies_subset:
  "n \<le> length (enemies (store g)) \<Longrightarrow>
   set (enemies (store (updateEnemies dt n g))) \<subseteq> set (enemies (store g))"
proof (induction n arbitrary: g)
  case 0
  then show ?case by simp
next
  case (Suc n)
  obtain g' b where s: "enemyStep dt n g = (g', b)"
    by (cases "enemyStep dt n g") auto
  from Suc.prems have lt: "n < length (enemies (store g))" by simp
  from enemyStep_enemies [OF s] lt
  have sub: "set (enemies (store g')) \<subseteq> set (enemies (store g))"
    and l: "n \<le> length (enemies (store g'))"
    by (auto dest: in_set_takeD in_set_dropD)
  show ?case
  proof (cases b)
    case True
    with s sub show ?thesis by simp
  next
    case False
    with s Suc.IH [OF l] sub show ?thesis by auto
  qed
qed

text \<open>
  Claim C10.  In the per-tick reap deadness takes priority over arrival.  When the enemy
  loop of a frame comes to index \<open>i\<close> and the enemy there is, after its own update, both
  dead and at the end of the route, the loop continues at index \<open>i - 1\<close> from the state
  \<open>g1\<close> in which the enemy's value was added to the gold, the enemy was disposed and
  removed from the live collection, and lives and status are as before: no life is taken
  for it and the game does not end on it.  When the references of the collection are
  distinct, the enemy is still gone and disposed when the loop has finished.
\<close>

theorem reap_dead_before_arrived:
  assumes "i < length (enemies (store g))"
    and "r = enemies (store g) ! i"
    and "e = Enemy_update dt (heap (store g) r)"
    and "isDead e" and "hasReachedEnd e"
  shows "\<exists>g1. g1 = g\<lparr>playerGold := playerGold g + evalue e,
                     store := spliceEnemy i r ((store g)\<lparr>heap := (heap (store g))(r := e)\<rparr>)\<rparr> \<and>
           updateEnemies dt (Suc i) g = updateEnemies dt i g1 \<and>
           playerGold g1 = playerGold g + evalue e \<and>
           playerLives g1 = playerLives g \<and>
           gameStatus g1 = gameStatus g \<and>
           enemies (store g1) = take i (enemies (store g)) @ drop (Suc i) (enemies (store g)) \<and>
           mesh (heap (store g1) r) = None \<and>
           (distinct (enemies (store g)) \<longrightarrow>
              r \<notin> set (enemies (store (updateEnemies dt (Suc i) g))) \<and>
              mesh (heap (store (updateEnemies dt (Suc i) g)) r) = None)"
proof -
  define g1 where "g1 = g\<lparr>playerGold := playerGold g + evalue e,
     store := spliceEnemy i r ((store g)\<lparr>heap := (heap (store g))(r := e)\<rparr>)\<rparr>"
  have step: "enemyStep dt i g = (g1, False)"
    using assms by (simp add: enemyStep_def Let_def g1_def)
  then have loop: "updateEnemies dt (Suc i) g = updateEnemies dt i g1"
    by simp
  have es: "enemies (store g1) = take i (enemies (store g)) @ drop (Suc i) (enemies (store g))"
    and m: "mesh (heap (store g1) r) = None"
    and gl: "playerGold g1 = playerGold g + evalue e" "playerLives g1 = playerLives g"
      "gameStatus g1 = gameStatus g"
    by (simp_all add: g1_def spliceEnemy_def Enemy_dispose_def)
  have len: "i \<le> length (enemies (store g1))"
    using assms(1) by (simp add: es)
  have fin: "r \<notin> set (enemies (store (updateEnemies dt (Suc i) g))) \<and>
      mesh (heap (store (updateEnemies dt (Suc i) g)) r) = None"
    if d: "distinct (enemies (store g))"
  proof -
    from distinct_splice [OF d assms(1)] have n: "r \<notin> set (enemies (store g1))"
      by (simp add: es assms(2))
    then have "r \<notin> set (take i (enemies (store g1)))"
      by (auto dest: in_set_takeD)
    from updateEnemies_untouched [OF len this, of dt] m
    have "mesh (heap (store (updateEnemies dt i g1)) r) = None" by simp
    moreover from updateEnemies_subset [OF len, of dt] n
    have "r \<notin> set (enemies (store (updateEnemies dt i g1)))" by auto
    ultimately show ?thesis unfolding loop by blast
  qed
  from loop es m gl fin show ?thesis
    unfolding g1_def [symmetric] by blast
qed

text \<open>
  A whole frame on the last life: the projectile kills the enemy, the enemy's update then
  takes it to the end of the route, and the reap credits 10 gold and removes the enemy;
  the last life is kept and the status stays \<open>WAVE_ACTIVE\<close>.
\<close>

lemma vlength_closeShot: "vlength (Vector3 (2 / 5) (- (3 / 10)) 0) = 1 / 2"
  unfolding vlength_def by (rule real_sqrt_unique) (simp_all add: power2_eq_square)

lemma cornerTower_waits:
  "Tower_update 0.1 [0] standHeap cornerTower ps = Inr (cornerTower\<lparr>fireCooldown := 0.4\<rparr>, ps)"
  by (simp add: Tower_update_def cornerTower_def upgrade_def Tower_new_def mainTowerConfig_def
      orDefault_def targetInvalid_def standHeap_def weakRunner_def runner_def isDead_def
      distanceToSquared_def Let_def power2_eq_square)

lemma closeShot_hits:
  "Projectile_update 0.1 standHeap closeShot = Inr (HIT_TARGET, closeShot, hitHeap)"
  by (simp add: Projectile_update_def closeShot_def standHeap_def hitHeap_def weakRunner_def
      hitRunner_def runner_def isDead_def Let_def subVectors_def vlength_closeShot orElse_def
      takeDamage_def)

lemma hitRunner_arrives: "Enemy_update 0.1 hitRunner = fallen"
  by (simp add: Enemy_update_def hitRunner_def fallen_def weakRunner_def runner_def arrived_def
      hasReachedEnd_def Path_new_def Let_def vlength_along_x)

lemma lastStand_frame:
  "animate 0.1 lastStandGame = Inr (updateEnemies 0.1 (Suc 0) lastStandMid)"
  by (simp add: animate_def lastStandGame_def wave_waits Let_def cornerTower_waits closeShot_hits
      lastStandMid_def del: updateEnemies.simps)

theorem reap_dead_before_arrived_witness:
  "animate 0.1 lastStandGame = Inr lastStandReaped \<and>
   isDead (Enemy_update 0.1 (heap (store lastStandMid) 0)) \<and>
   hasReachedEnd (Enemy_update 0.1 (heap (store lastStandMid) 0)) \<and>
   updateEnemies 0.1 (Suc 0) lastStandMid = lastStandReaped \<and>
   playerGold lastStandMid = 100 \<and> playerGold lastStandReaped = 110 \<and>
   playerLives lastStandMid = 1 \<and> playerLives lastStandReaped = 1 \<and>
   gameStatus lastStandReaped = WAVE_ACTIVE \<and>
   enemies (store lastStandReaped) = [] \<and>
   mesh (heap (store lastStandReaped) 0) = None"
proof -
  have a: "0 < length (enemies (store lastStandMid))"
    and b: "0 = enemies (store lastStandMid) ! 0"
    and h: "heap (store lastStandMid) 0 = hitRunner"
    by (simp_all add: lastStandMid_def hitHeap_def)
  have u: "Enemy_update 0.1 (heap (store lastStandMid) 0) = fallen"
    by (simp add: h hitRunner_arrives)
  have d: "isDead (Enemy_update 0.1 (heap (store lastStandMid) 0))"
    and e: "hasReachedEnd (Enemy_update 0.1 (heap (store lastStandMid) 0))"
    by (simp_all add: u isDead_def hasReachedEnd_def fallen_def arrived_def runner_def Path_new_def)
  from reap_dead_before_arrived [OF a b refl d e]
  have "updateEnemies 0.1 (Suc 0) lastStandMid =
     updateEnemies 0.1 0 (lastStandMid\<lparr>playerGold := playerGold lastStandMid
          + evalue (Enemy_update 0.1 (heap (store lastStandMid) 0)),
        store := spliceEnemy 0 0 ((store lastStandMid)\<lparr>heap := (heap (store lastStandMid))
          (0 := Enemy_update 0.1 (heap (store lastStandMid) 0))\<rparr>)\<rparr>)"
    by blast
  also have "\<dots> = lastStandReaped"
    unfolding u
    by (simp add: lastStandMid_def lastStandReaped_def spliceEnemy_def hitHeap_def reapedHeap_def
        fallen_def arrived_def runner_def)
  finally have l: "updateEnemies 0.1 (Suc 0) lastStandMid = lastStandReaped" .
  have f: "animate 0.1 lastStandGame = Inr lastStandReaped"
    by (simp only: lastStand_frame l)
  have k: "playerGold lastStandMid = 100" "playerGold lastStandReaped = 110"
    "playerLives lastStandMid = 1" "playerLives lastStandReaped = 1"
    "gameStatus lastStandReaped = WAVE_ACTIVE" "enemies (store lastStandReaped) = []"
    "mesh (heap (store lastStandReaped) 0) = None"
    by (simp_all add: lastStandMid_def lastStandReaped_def reapedHeap_def Enemy_dispose_def)
  from f d e l k show ?thesis by simp
qed

end
